theory Spec2Isabelle
  imports Complex_Main "HOL-Library.List_Lexorder" "HOL-Library.Char_ord"
begin

section \<open>Python values, strings and exceptions\<close>

text \<open>
  The server in \<^verbatim>\<open>server.py\<close> reads rows of one remote table and renders text reports.
  A row is a dictionary from column names to values. The columns are nullable text
  columns, so a value is either \<^verbatim>\<open>None\<close> or a string. A string is a list of characters,
  one \<^typ>\<open>char\<close> per code point (code points below 256), compared by code point as
  Python compares \<^verbatim>\<open>str\<close>.
\<close>

datatype pyval = PNone | PStr string

type_synonym row = "string \<rightharpoonup> pyval"

text \<open>\<^verbatim>\<open>d.get(key)\<close> and \<^verbatim>\<open>d.get(key, default)\<close>: the default is used only when the key is absent;
  a key that is present with the value \<^verbatim>\<open>None\<close> yields \<^verbatim>\<open>None\<close>.\<close>

definition dict_get :: "row \<Rightarrow> string \<Rightarrow> pyval" where
  "dict_get d k = (case d k of None \<Rightarrow> PNone | Some v \<Rightarrow> v)"

definition dict_get_default :: "row \<Rightarrow> string \<Rightarrow> pyval \<Rightarrow> pyval" where
  "dict_get_default d k dflt = (case d k of None \<Rightarrow> dflt | Some v \<Rightarrow> v)"

text \<open>Truthiness, as tested by \<^verbatim>\<open>if x:\<close> and \<^verbatim>\<open>not x\<close>.\<close>

fun truthy :: "pyval \<Rightarrow> bool" where
  "truthy PNone = False"
| "truthy (PStr s) = (s \<noteq> [])"

definition truthy_arg :: "string option \<Rightarrow> bool" where
  "truthy_arg a = (case a of None \<Rightarrow> False | Some s \<Rightarrow> s \<noteq> [])"

definition truthy_int :: "int option \<Rightarrow> bool" where
  "truthy_int a = (case a of None \<Rightarrow> False | Some n \<Rightarrow> n \<noteq> 0)"

text \<open>What an f-string prints for a value.\<close>

fun py_format :: "pyval \<Rightarrow> string" where
  "py_format PNone = ''None''"
| "py_format (PStr s) = s"

definition nl :: string where
  "nl = [CHR 0x0A]"

definition digit_char :: "nat \<Rightarrow> char" where
  "digit_char d = ''0123456789'' ! d"

fun str_nat :: "nat \<Rightarrow> string" where
  "str_nat n = (if n < 10 then [digit_char n] else str_nat (n div 10) @ [digit_char (n mod 10)])"

declare str_nat.simps [simp del]

fun join :: "string \<Rightarrow> string list \<Rightarrow> string" where
  "join sep [] = []"
| "join sep [x] = x"
| "join sep (x # y # ys) = x @ sep @ join sep (y # ys)"

text \<open>\<^verbatim>\<open>s.lower()\<close> on code points below 256: the ASCII capitals and the Latin-1 capitals.\<close>

definition upper_chars :: string where
  "upper_chars = ''ABCDEFGHIJKLMNOPQRSTUVWXYZ'' @
     [CHR 0xC0, CHR 0xC1, CHR 0xC2, CHR 0xC3, CHR 0xC4, CHR 0xC5, CHR 0xC6, CHR 0xC7,
      CHR 0xC8, CHR 0xC9, CHR 0xCA, CHR 0xCB, CHR 0xCC, CHR 0xCD, CHR 0xCE, CHR 0xCF,
      CHR 0xD0, CHR 0xD1, CHR 0xD2, CHR 0xD3, CHR 0xD4, CHR 0xD5, CHR 0xD6,
      CHR 0xD8, CHR 0xD9, CHR 0xDA, CHR 0xDB, CHR 0xDC, CHR 0xDD, CHR 0xDE]"

definition lower_chars :: string where
  "lower_chars = ''abcdefghijklmnopqrstuvwxyz'' @
     [CHR 0xE0, CHR 0xE1, CHR 0xE2, CHR 0xE3, CHR 0xE4, CHR 0xE5, CHR 0xE6, CHR 0xE7,
      CHR 0xE8, CHR 0xE9, CHR 0xEA, CHR 0xEB, CHR 0xEC, CHR 0xED, CHR 0xEE, CHR 0xEF,
      CHR 0xF0, CHR 0xF1, CHR 0xF2, CHR 0xF3, CHR 0xF4, CHR 0xF5, CHR 0xF6,
      CHR 0xF8, CHR 0xF9, CHR 0xFA, CHR 0xFB, CHR 0xFC, CHR 0xFD, CHR 0xFE]"

definition lower_char :: "char \<Rightarrow> char" where
  "lower_char c = (case map_of (zip upper_chars lower_chars) c of None \<Rightarrow> c | Some d \<Rightarrow> d)"

definition lower :: "string \<Rightarrow> string" where
  "lower s = map lower_char s"

text \<open>\<^verbatim>\<open>needle in hay\<close> on strings.\<close>

fun starts_with :: "string \<Rightarrow> string \<Rightarrow> bool" where
  "starts_with s [] = True"
| "starts_with [] (p # ps) = False"
| "starts_with (c # cs) (p # ps) = (c = p \<and> starts_with cs ps)"

fun contains :: "string \<Rightarrow> string \<Rightarrow> bool" where
  "contains [] needle = (needle = [])"
| "contains (c # cs) needle = (starts_with (c # cs) needle \<or> contains cs needle)"

text \<open>The characters \<^verbatim>\<open>str.isspace\<close> accepts among the code points below 256; \<^verbatim>\<open>s.split()\<close>
  cuts at runs of them and \<^verbatim>\<open>s.strip()\<close> removes them at both ends.\<close>

definition space_chars :: string where
  "space_chars = [CHR 0x09, CHR 0x0A, CHR 0x0B, CHR 0x0C, CHR 0x0D,
                  CHR 0x1C, CHR 0x1D, CHR 0x1E, CHR 0x1F, CHR 0x20, CHR 0x85, CHR 0xA0]"

definition is_space :: "char \<Rightarrow> bool" where
  "is_space c = (c \<in> set space_chars)"

fun split_ws_from :: "string \<Rightarrow> string \<Rightarrow> string list" where
  "split_ws_from cur [] = (if cur = [] then [] else [cur])"
| "split_ws_from cur (c # cs) =
     (if is_space c then (if cur = [] then split_ws_from [] cs else cur # split_ws_from [] cs)
      else split_ws_from (cur @ [c]) cs)"

definition split_ws :: "string \<Rightarrow> string list" where
  "split_ws s = split_ws_from [] s"

fun split_on_from :: "char \<Rightarrow> string \<Rightarrow> string \<Rightarrow> string list" where
  "split_on_from sep cur [] = [cur]"
| "split_on_from sep cur (c # cs) =
     (if c = sep then cur # split_on_from sep [] cs else split_on_from sep (cur @ [c]) cs)"

definition split_on :: "char \<Rightarrow> string \<Rightarrow> string list" where
  "split_on sep s = split_on_from sep [] s"

definition strip :: "string \<Rightarrow> string" where
  "strip s = rev (dropWhile is_space (rev (dropWhile is_space s)))"

text \<open>\<^verbatim>\<open>xs[:n]\<close>: a negative bound counts from the end.\<close>

definition py_take :: "int \<Rightarrow> 'a list \<Rightarrow> 'a list" where
  "py_take n xs = (if 0 \<le> n then take (nat n) xs else take (length xs - nat (- n)) xs)"

text \<open>The exceptions the program meets, each with the text \<^verbatim>\<open>str(e)\<close> gives.\<close>

datatype pyexc = ValueError string | TypeError string | ZeroDivisionError string | Exception string

fun exc_str :: "pyexc \<Rightarrow> string" where
  "exc_str (ValueError m) = m"
| "exc_str (TypeError m) = m"
| "exc_str (ZeroDivisionError m) = m"
| "exc_str (Exception m) = m"

text \<open>\<^verbatim>\<open>(count / total) * 100\<close>. The quotient is kept exact (a rational number); the rounding
  of Python's floats is not part of the model. Division by zero raises.\<close>

definition percentage :: "nat \<Rightarrow> nat \<Rightarrow> pyexc + rat" where
  "percentage count total_investors =
     (if total_investors = 0 then Inl (ZeroDivisionError ''division by zero'')
      else Inr ((of_nat count / of_nat total_investors) * 100))"

text \<open>\<^verbatim>\<open>sorted(items, key=..., reverse=True)\<close> and \<^verbatim>\<open>list.sort(key=..., reverse=True)\<close>: Python's sort
  is stable, also with \<^verbatim>\<open>reverse=True\<close>, so items with equal keys keep their order.\<close>

definition sorted_desc :: "('a \<Rightarrow> nat) \<Rightarrow> 'a list \<Rightarrow> 'a list" where
  "sorted_desc key xs = sort_key (\<lambda>x. - int (key x)) xs"

text \<open>A dictionary of counters keeps its keys in insertion order.
  \<^verbatim>\<open>counts[k] = counts.get(k, 0) + 1\<close>:\<close>

fun dict_incr :: "'k \<Rightarrow> ('k \<times> nat) list \<Rightarrow> ('k \<times> nat) list" where
  "dict_incr k [] = [(k, 1)]"
| "dict_incr k ((k', c) # kvs) =
     (if k = k' then (k', c + 1) # kvs else (k', c) # dict_incr k kvs)"


section \<open>The remote table client\<close>

text \<open>
  The query that \<^verbatim>\<open>fetch_data_from_supabase\<close> builds, and what the program takes from outside:
  the two credentials of the environment, the answer of the remote store to a query (rows,
  or an exception with its message), and the rendering of a number by the format
  \<^verbatim>\<open>:.1f\<close>.
\<close>

record query =
  q_table :: string
  q_select :: string
  q_eq :: "(string \<times> string) list"
  q_limit :: "int option"

record env =
  supabase_url :: "string option"
  supabase_key :: "string option"
  execute :: "query \<Rightarrow> string + row list"
  format_1f :: "rat \<Rightarrow> string"

definition quoted :: "string \<Rightarrow> string" where
  "quoted col = ''\"'' @ col @ ''\"''"

definition credentials_message :: string where
  "credentials_message =
     ''Supabase credentials not found. Please set SUPABASE_URL and SUPABASE_KEY '' @
     ''environment variables or add them to your .env file.''"

text \<open>The query built from the arguments: the quoted columns, one equality per filter, and
  the limit unless it is \<^verbatim>\<open>None\<close> or zero (\<^verbatim>\<open>if limit:\<close>).\<close>

definition build_query ::
  "string \<Rightarrow> string list option \<Rightarrow> (string \<times> string) list option \<Rightarrow> int option \<Rightarrow> query" where
  "build_query table_name select_columns filters limit =
     \<lparr> q_table = table_name,
       q_select = (case select_columns of None \<Rightarrow> ''*''
                   | Some cols \<Rightarrow> join '', '' (map quoted cols)),
       q_eq = (case filters of None \<Rightarrow> []
               | Some fs \<Rightarrow> map (\<lambda>(column, v). (quoted column, v)) fs),
       q_limit = (if truthy_int limit then limit else None) \<rparr>"

text \<open>The state threaded through a call is the list of the queries executed so far.\<close>

definition fetch_data_from_supabase ::
  "env \<Rightarrow> string \<Rightarrow> string list option \<Rightarrow> (string \<times> string) list option \<Rightarrow> int option
     \<Rightarrow> query list \<Rightarrow> (pyexc + row list) \<times> query list" where
  "fetch_data_from_supabase e table_name select_columns filters limit qs =
     (if \<not> truthy_arg (supabase_url e) \<or> \<not> truthy_arg (supabase_key e)
      then (Inl (ValueError credentials_message), qs)
      else
        let q = build_query table_name select_columns filters limit
        in (case execute e q of
              Inl m \<Rightarrow> Inl (Exception (''Error fetching data from Supabase: '' @ m))
            | Inr rows \<Rightarrow> Inr rows,
            qs @ [q]))"

definition all_columns :: "string list" where
  "all_columns = [''Investor name'', ''Website'', ''Global HQ'', ''Countries of investment'',
     ''Stage of investment'', ''Investment thesis'', ''Investor type'',
     ''First cheque minimum'', ''First cheque maximum'']"


section \<open>Formatting records\<close>

text \<open>\<^verbatim>\<open>if len(thesis) > 100: thesis = thesis[:100] + "..."\<close>\<close>

definition truncate_thesis :: "string \<Rightarrow> string" where
  "truncate_thesis thesis = (if length thesis > 100 then take 100 thesis @ ''...'' else thesis)"

text \<open>\<^verbatim>\<open>len\<close> raises on \<^verbatim>\<open>None\<close>.\<close>

fun thesis_text :: "pyval \<Rightarrow> pyexc + string" where
  "thesis_text PNone = Inl (TypeError ''object of type 'NoneType' has no len()'')"
| "thesis_text (PStr s) = Inr (truncate_thesis s)"

definition NA :: pyval where
  "NA = PStr ''N/A''"

definition separator :: string where
  "separator = replicate 80 (CHR ''-'') @ nl @ nl"

text \<open>The lines of a record block from \<^verbatim>\<open>Website\<close> to \<^verbatim>\<open>First Cheque\<close>, the same in every listing.\<close>

definition block_fields :: "row \<Rightarrow> string" where
  "block_fields investor =
     ''   Website: '' @ py_format (dict_get_default investor ''Website'' NA) @ nl @
     ''   Global HQ: '' @ py_format (dict_get_default investor ''Global HQ'' NA) @ nl @
     ''   Countries: '' @ py_format (dict_get_default investor ''Countries of investment'' NA) @ nl @
     ''   Stage: '' @ py_format (dict_get_default investor ''Stage of investment'' NA) @ nl @
     ''   Type: '' @ py_format (dict_get_default investor ''Investor type'' NA) @ nl @
     ''   First Cheque: '' @ py_format (dict_get_default investor ''First cheque minimum'' NA) @
        '' - '' @ py_format (dict_get_default investor ''First cheque maximum'' NA) @ nl"

text \<open>One pass of the loop body: the block of record number \<open>i\<close>.\<close>

definition investor_block :: "nat \<Rightarrow> row \<Rightarrow> pyexc + string" where
  "investor_block i investor =
     (case thesis_text (dict_get_default investor ''Investment thesis'' NA) of
        Inl ex \<Rightarrow> Inl ex
      | Inr thesis \<Rightarrow> Inr (
          str_nat i @ ''. '' @ py_format (dict_get_default investor ''Investor name'' NA) @ nl @
          block_fields investor @
          ''   Thesis: '' @ thesis @ nl @
          separator))"

text \<open>\<^verbatim>\<open>for i, investor in enumerate(rows, i0)\<close>, appending each block; an exception ends the loop.\<close>

fun investor_blocks :: "nat \<Rightarrow> row list \<Rightarrow> pyexc + string" where
  "investor_blocks i [] = Inr []"
| "investor_blocks i (investor # rest) =
     (case investor_block i investor of
        Inl ex \<Rightarrow> Inl ex
      | Inr b \<Rightarrow> (case investor_blocks (Suc i) rest of
                   Inl ex \<Rightarrow> Inl ex
                 | Inr s \<Rightarrow> Inr (b @ s)))"

definition more_line :: "nat \<Rightarrow> string \<Rightarrow> string" where
  "more_line n what = (if n > 10 then ''... and '' @ str_nat (n - 10) @ what else [])"

text \<open>Header, the blocks of the first ten records, and the closing line.\<close>

definition format_listing :: "string \<Rightarrow> row list \<Rightarrow> pyexc + string" where
  "format_listing header data =
     (case investor_blocks 1 (take 10 data) of
        Inl ex \<Rightarrow> Inl ex
      | Inr blocks \<Rightarrow> Inr (header @ blocks @ more_line (length data) '' more records.''))"


section \<open>The tools\<close>

text \<open>
  Every tool is a \<^verbatim>\<open>try\<close> block whose handler \<^verbatim>\<open>except Exception as e\<close> returns a fixed phrase
  followed by \<^verbatim>\<open>str(e)\<close>. The body is a function that returns either the exception raised
  or the text, together with the queries executed.
\<close>

definition handle :: "string \<Rightarrow> (pyexc + string) \<times> query list \<Rightarrow> string \<times> query list" where
  "handle phrase r = (case fst r of Inl ex \<Rightarrow> (phrase @ exc_str ex, snd r) | Inr s \<Rightarrow> (s, snd r))"

definition no_data :: string where
  "no_data = ''No investor data found.''"

subsection \<open>\<^verbatim>\<open>get_investor_data\<close>\<close>

definition get_investor_data_body ::
  "env \<Rightarrow> int option \<Rightarrow> query list \<Rightarrow> (pyexc + string) \<times> query list" where
  "get_investor_data_body e limit qs =
     (case fetch_data_from_supabase e ''dec-2024'' (Some all_columns) None limit qs of
        (Inl ex, qs') \<Rightarrow> (Inl ex, qs')
      | (Inr data, qs') \<Rightarrow>
          (if data = [] then Inr no_data
           else format_listing
                  (''Found '' @ str_nat (length data) @ '' investor records:'' @ nl @ nl) data,
           qs'))"

definition get_investor_data :: "env \<Rightarrow> int option \<Rightarrow> query list \<Rightarrow> string \<times> query list" where
  "get_investor_data e limit qs =
     handle ''An error occurred while fetching investor data: '' (get_investor_data_body e limit qs)"


subsection \<open>\<^verbatim>\<open>search_investors_by_criteria\<close>\<close>

definition investor_type_mapping :: "(string \<times> string) list" where
  "investor_type_mapping =
     [(''angel'', ''Angel network''), (''angel network'', ''Angel network''),
      (''vc'', ''VC''), (''venture capital'', ''VC''),
      (''pe'', ''PE''), (''private equity'', ''PE''),
      (''cvc'', ''CVC''), (''corporate venture capital'', ''CVC'')]"

definition country_mapping :: "(string \<times> string) list" where
  "country_mapping =
     [(''united states'', ''USA''), (''usa'', ''USA''), (''us'', ''USA''), (''america'', ''USA''),
      (''united kingdom'', ''UK''), (''uk'', ''UK''), (''england'', ''UK''),
      (''great britain'', ''UK''), (''germany'', ''Germany''), (''france'', ''France''),
      (''canada'', ''Canada''), (''australia'', ''Australia''), (''japan'', ''Japan''),
      (''china'', ''China''), (''india'', ''India''), (''singapore'', ''Singapore''),
      (''netherlands'', ''Netherlands''), (''sweden'', ''Sweden''),
      (''switzerland'', ''Switzerland''), (''israel'', ''Israel'')]"

text \<open>\<^verbatim>\<open>mapping.get(text.lower(), text)\<close>\<close>

definition mapped :: "(string \<times> string) list \<Rightarrow> string \<Rightarrow> string" where
  "mapped mapping text = (case map_of mapping (lower text) of None \<Rightarrow> text | Some v \<Rightarrow> v)"

text \<open>\<^verbatim>\<open>if arg: items.append(f(arg))\<close>: nothing for \<^verbatim>\<open>None\<close> and for the empty string.\<close>

definition when_given :: "string option \<Rightarrow> (string \<Rightarrow> 'a) \<Rightarrow> 'a list" where
  "when_given arg f = (case arg of None \<Rightarrow> [] | Some s \<Rightarrow> if s = [] then [] else [f s])"

definition build_filters ::
  "string option \<Rightarrow> string option \<Rightarrow> string option \<Rightarrow> string option \<Rightarrow> (string \<times> string) list" where
  "build_filters investor_type stage country hq_location =
     when_given investor_type (\<lambda>s. (''Investor type'', mapped investor_type_mapping s)) @
     when_given stage (\<lambda>s. (''Stage of investment'', s)) @
     when_given country (\<lambda>s. (''Countries of investment'', mapped country_mapping s)) @
     when_given hq_location (\<lambda>s. (''Global HQ'', s))"

definition criteria_text :: "string list \<Rightarrow> string" where
  "criteria_text filter_desc =
     (if filter_desc = [] then ''the specified criteria'' else join '', '' filter_desc)"

definition search_investors_by_criteria_body ::
  "env \<Rightarrow> string option \<Rightarrow> string option \<Rightarrow> string option \<Rightarrow> string option \<Rightarrow> int option
     \<Rightarrow> query list \<Rightarrow> (pyexc + string) \<times> query list" where
  "search_investors_by_criteria_body e investor_type stage country hq_location limit qs =
     (case fetch_data_from_supabase e ''dec-2024'' (Some all_columns)
             (Some (build_filters investor_type stage country hq_location)) limit qs of
        (Inl ex, qs') \<Rightarrow> (Inl ex, qs')
      | (Inr data, qs') \<Rightarrow>
          (if data = [] then
             Inr (''No investors found matching '' @
                  criteria_text
                    (when_given investor_type (\<lambda>s. ''type: '' @ s) @
                     when_given stage (\<lambda>s. ''stage: '' @ s) @
                     when_given country (\<lambda>s. ''country: '' @ s) @
                     when_given hq_location (\<lambda>s. ''HQ location: '' @ s)) @ ''.'')
           else format_listing
                  (''Found '' @ str_nat (length data) @ '' investors matching your criteria:'' @ nl @ nl)
                  data,
           qs'))"

definition search_investors_by_criteria ::
  "env \<Rightarrow> string option \<Rightarrow> string option \<Rightarrow> string option \<Rightarrow> string option \<Rightarrow> int option
     \<Rightarrow> query list \<Rightarrow> string \<times> query list" where
  "search_investors_by_criteria e investor_type stage country hq_location limit qs =
     handle ''An error occurred while searching investors: ''
       (search_investors_by_criteria_body e investor_type stage country hq_location limit qs)"

subsection \<open>\<^verbatim>\<open>get_available_investor_types\<close> and \<^verbatim>\<open>get_available_countries\<close>\<close>

text \<open>The values of one column that pass \<^verbatim>\<open>if value:\<close>, in the order of the records.\<close>

fun present_values :: "string \<Rightarrow> row list \<Rightarrow> string list" where
  "present_values field [] = []"
| "present_values field (record # rest) =
     (case dict_get record field of
        PNone \<Rightarrow> present_values field rest
      | PStr s \<Rightarrow> (if s = [] then present_values field rest else s # present_values field rest))"

text \<open>\<^verbatim>\<open>for i, item in enumerate(items, i0)\<close>, one numbered line each.\<close>

fun numbered_lines :: "nat \<Rightarrow> string list \<Rightarrow> string" where
  "numbered_lines i [] = []"
| "numbered_lines i (item # rest) = str_nat i @ ''. '' @ item @ nl @ numbered_lines (Suc i) rest"

text \<open>A set of strings is the list of its distinct members; \<^verbatim>\<open>sorted\<close> puts them in the order of
  Python's string comparison.\<close>

definition get_available_investor_types_body ::
  "env \<Rightarrow> query list \<Rightarrow> (pyexc + string) \<times> query list" where
  "get_available_investor_types_body e qs =
     (case fetch_data_from_supabase e ''dec-2024'' (Some [''Investor type'']) None None qs of
        (Inl ex, qs') \<Rightarrow> (Inl ex, qs')
      | (Inr data, qs') \<Rightarrow>
          (if data = [] then Inr no_data
           else let investor_types = remdups (present_values ''Investor type'' data) in
             if investor_types = [] then Inr ''No investor types found in the database.''
             else Inr (''Available investor types in the database:'' @ nl @ nl @
                       numbered_lines 1 (sort investor_types) @
                       nl @ ''Total: '' @ str_nat (length investor_types) @
                       '' unique investor types''),
           qs'))"

definition get_available_investor_types :: "env \<Rightarrow> query list \<Rightarrow> string \<times> query list" where
  "get_available_investor_types e qs =
     handle ''An error occurred while fetching investor types: ''
       (get_available_investor_types_body e qs)"

text \<open>The names one record adds to the set of countries.\<close>

definition country_names :: "string \<Rightarrow> string list" where
  "country_names country =
     (if contains country '','' then map strip (split_on (CHR '','') country)
      else [strip country])"

definition get_available_countries_body ::
  "env \<Rightarrow> query list \<Rightarrow> (pyexc + string) \<times> query list" where
  "get_available_countries_body e qs =
     (case fetch_data_from_supabase e ''dec-2024'' (Some [''Countries of investment'']) None None qs of
        (Inl ex, qs') \<Rightarrow> (Inl ex, qs')
      | (Inr data, qs') \<Rightarrow>
          (if data = [] then Inr no_data
           else let countries =
                      remdups (concat (map country_names
                                         (present_values ''Countries of investment'' data))) in
             if countries = [] then Inr ''No countries found in the database.''
             else Inr (''Available countries in the database:'' @ nl @ nl @
                       numbered_lines 1 (sort countries) @
                       nl @ ''Total: '' @ str_nat (length countries) @ '' unique countries''),
           qs'))"

definition get_available_countries :: "env \<Rightarrow> query list \<Rightarrow> string \<times> query list" where
  "get_available_countries e qs =
     handle ''An error occurred while fetching countries: '' (get_available_countries_body e qs)"

subsection \<open>\<^verbatim>\<open>get_location_search_guide\<close>\<close>

definition get_location_search_guide :: string where
  "get_location_search_guide =
     nl @
     ''    Location Search Guide:'' @ nl @
     ''    '' @ nl @
     ''    There are two different ways to search for investors by location:'' @ nl @
     ''    '' @ nl @
     ''    1. COUNTRY OF INVESTMENT (country parameter):'' @ nl @
     ''       - Uses country codes like \"USA\", \"UK\", \"Germany\"'' @ nl @
     ''       - Shows where the investor makes investments'' @ nl @
     ''       - Example: \"Find VCs in USA\" or \"Angel investors in UK\"'' @ nl @
     ''    '' @ nl @
     ''    2. GLOBAL HQ LOCATION (hq_location parameter):'' @ nl @
     ''       - Uses full addresses like \"San Francisco, CA\" or \"New York, NY\"'' @ nl @
     ''       - Shows where the investor's headquarters is located'' @ nl @
     ''       - Example: \"Investors headquartered in San Francisco\" or \"VCs in New York\"'' @ nl @
     ''    '' @ nl @
     ''    Tips:'' @ nl @
     ''    - Use \"country\" for broad geographic investment areas'' @ nl @
     ''    - Use \"hq_location\" for specific city/state searches'' @ nl @
     ''    - You can search for cities, states, or countries in HQ location'' @ nl @
     ''    - Country searches are more precise, HQ searches are more flexible'' @ nl @
     ''    ''"

subsection \<open>Counting the values of a column\<close>

text \<open>The loop \<^verbatim>\<open>for record in data: value = record.get(field); if value: counts[value] = counts.get(value, 0) + 1\<close>,
  from a given dictionary of counters.\<close>

fun count_values :: "string \<Rightarrow> row list \<Rightarrow> (string \<times> nat) list \<Rightarrow> (string \<times> nat) list" where
  "count_values field [] counts = counts"
| "count_values field (record # rest) counts =
     (case dict_get record field of
        PNone \<Rightarrow> count_values field rest counts
      | PStr v \<Rightarrow> (if v = [] then count_values field rest counts
                   else count_values field rest (dict_incr v counts)))"

text \<open>The character U+2022 that starts a report line lies outside the code points below 256;
  it stands here as the three bytes of its UTF-8 form.\<close>

definition bullet :: string where
  "bullet = [CHR 0xE2, CHR 0x80, CHR 0xA2]"

text \<open>The loop \<^verbatim>\<open>for value, count in items: percentage = (count / total) * 100; ...\<close>: the
  entries with their percentages, then the lines printed for them.\<close>

fun percent_entries :: "('k \<times> nat) list \<Rightarrow> nat \<Rightarrow> pyexc + ('k \<times> nat \<times> rat) list" where
  "percent_entries [] total_investors = Inr []"
| "percent_entries ((v, count) # rest) total_investors =
     (case percentage count total_investors of
        Inl ex \<Rightarrow> Inl ex
      | Inr p \<Rightarrow> (case percent_entries rest total_investors of
                   Inl ex \<Rightarrow> Inl ex
                 | Inr es \<Rightarrow> Inr ((v, count, p) # es)))"

definition percent_line :: "env \<Rightarrow> string \<Rightarrow> string \<times> nat \<times> rat \<Rightarrow> string" where
  "percent_line e unit_text entry =
     (case entry of (v, count, p) \<Rightarrow>
        bullet @ '' '' @ v @ '': '' @ str_nat count @ unit_text @ '' ('' @ format_1f e p @ ''%)'' @ nl)"

definition percent_lines :: "env \<Rightarrow> string \<Rightarrow> (string \<times> nat \<times> rat) list \<Rightarrow> string" where
  "percent_lines e unit_text entries = concat (map (percent_line e unit_text) entries)"

subsection \<open>\<^verbatim>\<open>analyze_investment_stages\<close>\<close>

definition stage_entries :: "row list \<Rightarrow> pyexc + (string \<times> nat \<times> rat) list" where
  "stage_entries data =
     (let stage_counts = count_values ''Stage of investment'' data [];
          sorted_stages = sorted_desc snd stage_counts;
          total_investors = sum_list (map snd stage_counts)
      in percent_entries sorted_stages total_investors)"

definition analyze_investment_stages_body ::
  "env \<Rightarrow> query list \<Rightarrow> (pyexc + string) \<times> query list" where
  "analyze_investment_stages_body e qs =
     (case fetch_data_from_supabase e ''dec-2024'' (Some [''Stage of investment'']) None None qs of
        (Inl ex, qs') \<Rightarrow> (Inl ex, qs')
      | (Inr data, qs') \<Rightarrow>
          (if data = [] then Inr no_data
           else let stage_counts = count_values ''Stage of investment'' data [] in
             if stage_counts = [] then Inr ''No investment stage data found.''
             else (case stage_entries data of
                     Inl ex \<Rightarrow> Inl ex
                   | Inr entries \<Rightarrow>
                       Inr (''Investment Stage Analysis:'' @ nl @ nl @
                            percent_lines e '' investors'' entries @
                            nl @ ''Total investors analyzed: '' @
                              str_nat (sum_list (map snd stage_counts)) @
                            nl @ ''Unique investment stages: '' @ str_nat (length stage_counts))),
           qs'))"

definition analyze_investment_stages :: "env \<Rightarrow> query list \<Rightarrow> string \<times> query list" where
  "analyze_investment_stages e qs =
     handle ''An error occurred while analyzing investment stages: ''
       (analyze_investment_stages_body e qs)"

subsection \<open>\<^verbatim>\<open>find_investors_by_cheque_size\<close>\<close>

text \<open>One pass of the filter loop: whether the record is appended to \<^verbatim>\<open>filtered_data\<close>.\<close>

definition include_investor :: "string option \<Rightarrow> string option \<Rightarrow> row \<Rightarrow> bool" where
  "include_investor min_amount max_amount investor =
     (case (dict_get investor ''First cheque minimum'', dict_get investor ''First cheque maximum'') of
        (PStr min_cheque, PStr max_cheque) \<Rightarrow>
          if min_cheque = [] \<or> max_cheque = [] then False
          else
            let include1 = (case min_amount of
                              None \<Rightarrow> True
                            | Some a \<Rightarrow> if a = [] then True
                                        else \<not> (lower min_cheque < lower a))
            in (case max_amount of
                  None \<Rightarrow> include1
                | Some b \<Rightarrow> if b \<noteq> [] \<and> include1
                            then \<not> (lower max_cheque > lower b)
                            else include1)
      | _ \<Rightarrow> False)"

definition filter_by_cheque :: "string option \<Rightarrow> string option \<Rightarrow> row list \<Rightarrow> row list" where
  "filter_by_cheque min_amount max_amount data = filter (include_investor min_amount max_amount) data"

text \<open>The rule of the cheque-range filter in the words of its description: a supplied bound
  rejects a record whose minimum is below it, or whose maximum is above it, as lower-cased
  strings; a record without both cheque values is dropped.\<close>

definition rejected_by_min :: "string option \<Rightarrow> string \<Rightarrow> bool" where
  "rejected_by_min min_amount min_cheque =
     (case min_amount of None \<Rightarrow> False | Some a \<Rightarrow> a \<noteq> [] \<and> lower min_cheque < lower a)"

definition rejected_by_max :: "string option \<Rightarrow> string \<Rightarrow> bool" where
  "rejected_by_max max_amount max_cheque =
     (case max_amount of None \<Rightarrow> False | Some b \<Rightarrow> b \<noteq> [] \<and> lower max_cheque > lower b)"

definition cheque_rule :: "string option \<Rightarrow> string option \<Rightarrow> row \<Rightarrow> bool" where
  "cheque_rule min_amount max_amount r =
     (case (dict_get r ''First cheque minimum'', dict_get r ''First cheque maximum'') of
        (PStr min_cheque, PStr max_cheque) \<Rightarrow>
          min_cheque \<noteq> [] \<and> max_cheque \<noteq> [] \<and>
          \<not> rejected_by_min min_amount min_cheque \<and> \<not> rejected_by_max max_amount max_cheque
      | _ \<Rightarrow> False)"

text \<open>\<^verbatim>\<open>if limit: xs = xs[:limit]\<close>\<close>

definition apply_limit :: "int option \<Rightarrow> 'a list \<Rightarrow> 'a list" where
  "apply_limit limit xs = (case limit of None \<Rightarrow> xs | Some n \<Rightarrow> if n = 0 then xs else py_take n xs)"

definition find_investors_by_cheque_size_body ::
  "env \<Rightarrow> string option \<Rightarrow> string option \<Rightarrow> int option
     \<Rightarrow> query list \<Rightarrow> (pyexc + string) \<times> query list" where
  "find_investors_by_cheque_size_body e min_amount max_amount limit qs =
     (case fetch_data_from_supabase e ''dec-2024'' (Some all_columns) None None qs of
        (Inl ex, qs') \<Rightarrow> (Inl ex, qs')
      | (Inr data, qs') \<Rightarrow>
          (if data = [] then Inr no_data
           else let filtered_data = filter_by_cheque min_amount max_amount data in
             if filtered_data = [] then
               Inr (''No investors found matching '' @
                    criteria_text
                      (when_given min_amount (\<lambda>s. ''minimum: '' @ s) @
                       when_given max_amount (\<lambda>s. ''maximum: '' @ s)) @ ''.'')
             else let limited = apply_limit limit filtered_data in
               format_listing
                 (''Found '' @ str_nat (length limited) @ '' investors matching your criteria:'' @ nl @ nl)
                 limited,
           qs'))"

definition find_investors_by_cheque_size ::
  "env \<Rightarrow> string option \<Rightarrow> string option \<Rightarrow> int option \<Rightarrow> query list \<Rightarrow> string \<times> query list" where
  "find_investors_by_cheque_size e min_amount max_amount limit qs =
     handle ''An error occurred while searching by cheque size: ''
       (find_investors_by_cheque_size_body e min_amount max_amount limit qs)"

subsection \<open>\<^verbatim>\<open>analyze_investment_thesis\<close>\<close>

record thesis_item =
  item_thesis :: string
  item_type :: pyval
  item_stage :: pyval

fun thesis_items :: "row list \<Rightarrow> thesis_item list" where
  "thesis_items [] = []"
| "thesis_items (record # rest) =
     (case dict_get record ''Investment thesis'' of
        PNone \<Rightarrow> thesis_items rest
      | PStr thesis \<Rightarrow>
          (if thesis \<noteq> [] \<and> thesis \<noteq> ''N/A''
           then \<lparr> item_thesis = thesis,
                  item_type = dict_get record ''Investor type'',
                  item_stage = dict_get record ''Stage of investment'' \<rparr> # thesis_items rest
           else thesis_items rest))"

definition common_keywords :: "string list" where
  "common_keywords =
     [''AI'', ''artificial intelligence'', ''machine learning'', ''ML'', ''fintech'',
      ''financial technology'', ''healthtech'', ''healthcare'', ''SaaS'', ''software'',
      ''enterprise'', ''B2B'', ''B2C'', ''ecommerce'', ''marketplace'', ''platform'', ''mobile'',
      ''biotech'', ''biotechnology'', ''clean energy'', ''sustainability'', ''cybersecurity'',
      ''security'', ''blockchain'', ''crypto'', ''edtech'', ''education'', ''real estate'',
      ''proptech'']"

text \<open>\<^verbatim>\<open>d[k] = v\<close> on a dictionary in insertion order.\<close>

fun dict_set :: "'k \<Rightarrow> 'v \<Rightarrow> ('k \<times> 'v) list \<Rightarrow> ('k \<times> 'v) list" where
  "dict_set k v [] = [(k, v)]"
| "dict_set k v ((k', v') # kvs) =
     (if k = k' then (k', v) # kvs else (k', v') # dict_set k v kvs)"

fun keyword_counts :: "string list \<Rightarrow> thesis_item list \<Rightarrow> (string \<times> nat) list \<Rightarrow> (string \<times> nat) list" where
  "keyword_counts [] thesis_data counts = counts"
| "keyword_counts (keyword # rest) thesis_data counts =
     (let count = length (filter (\<lambda>item. contains (lower (item_thesis item)) (lower keyword))
                            thesis_data)
      in if count > 0 then keyword_counts rest thesis_data (dict_set keyword count counts)
         else keyword_counts rest thesis_data counts)"

text \<open>\<^verbatim>\<open>if t not in type_thesis: type_thesis[t] = []\<close> followed by \<^verbatim>\<open>type_thesis[t].append(thesis)\<close>\<close>

fun dict_append :: "'k \<Rightarrow> 'v \<Rightarrow> ('k \<times> 'v list) list \<Rightarrow> ('k \<times> 'v list) list" where
  "dict_append k v [] = [(k, [v])]"
| "dict_append k v ((k', vs) # kvs) =
     (if k = k' then (k', vs @ [v]) # kvs else (k', vs) # dict_append k v kvs)"

fun group_by_type :: "thesis_item list \<Rightarrow> (pyval \<times> string list) list \<Rightarrow> (pyval \<times> string list) list" where
  "group_by_type [] type_thesis = type_thesis"
| "group_by_type (item # rest) type_thesis =
     group_by_type rest (dict_append (item_type item) (item_thesis item) type_thesis)"

fun type_lines :: "(pyval \<times> string list) list \<Rightarrow> string" where
  "type_lines [] = []"
| "type_lines ((investor_type, theses) # rest) =
     (if length theses > 5
      then bullet @ '' '' @ py_format investor_type @ '': '' @ str_nat (length theses) @
           '' investors'' @ nl @ type_lines rest
      else type_lines rest)"

definition theme_entries :: "thesis_item list \<Rightarrow> pyexc + (string \<times> nat \<times> rat) list" where
  "theme_entries thesis_data =
     percent_entries (take 10 (sorted_desc snd (keyword_counts common_keywords thesis_data [])))
       (length thesis_data)"

definition analyze_investment_thesis_body ::
  "env \<Rightarrow> query list \<Rightarrow> (pyexc + string) \<times> query list" where
  "analyze_investment_thesis_body e qs =
     (case fetch_data_from_supabase e ''dec-2024''
             (Some [''Investment thesis'', ''Investor type'', ''Stage of investment'']) None None qs of
        (Inl ex, qs') \<Rightarrow> (Inl ex, qs')
      | (Inr data, qs') \<Rightarrow>
          (if data = [] then Inr no_data
           else let thesis_data = thesis_items data in
             if thesis_data = [] then Inr ''No investment thesis data found.''
             else (case theme_entries thesis_data of
                     Inl ex \<Rightarrow> Inl ex
                   | Inr entries \<Rightarrow>
                       Inr (''Investment Thesis Analysis:'' @ nl @ nl @
                            ''Total investors with thesis data: '' @
                              str_nat (length thesis_data) @ nl @ nl @
                            ''Most Common Investment Themes:'' @ nl @
                            percent_lines e '' investors'' entries @
                            nl @ ''Thesis Analysis by Investor Type:'' @ nl @
                            type_lines (group_by_type thesis_data []))),
           qs'))"

definition analyze_investment_thesis :: "env \<Rightarrow> query list \<Rightarrow> string \<times> query list" where
  "analyze_investment_thesis e qs =
     handle ''An error occurred while analyzing investment thesis: ''
       (analyze_investment_thesis_body e qs)"

subsection \<open>\<^verbatim>\<open>get_investor_statistics\<close>\<close>

text \<open>The country loop: a value with a comma adds one count for each trimmed part, a value
  without a comma adds one count for the value as it is.\<close>

fun incr_all :: "'k list \<Rightarrow> ('k \<times> nat) list \<Rightarrow> ('k \<times> nat) list" where
  "incr_all [] counts = counts"
| "incr_all (k # ks) counts = incr_all ks (dict_incr k counts)"

definition country_tokens :: "string \<Rightarrow> string list" where
  "country_tokens countries =
     (if contains countries '','' then map strip (split_on (CHR '','') countries)
      else [countries])"

fun count_countries :: "row list \<Rightarrow> (string \<times> nat) list \<Rightarrow> (string \<times> nat) list" where
  "count_countries [] counts = counts"
| "count_countries (record # rest) counts =
     (case dict_get record ''Countries of investment'' of
        PNone \<Rightarrow> count_countries rest counts
      | PStr countries \<Rightarrow>
          (if countries = [] then count_countries rest counts
           else count_countries rest (incr_all (country_tokens countries) counts)))"

fun cheque_data :: "row list \<Rightarrow> (string \<times> string) list" where
  "cheque_data [] = []"
| "cheque_data (record # rest) =
     (case (dict_get record ''First cheque minimum'', dict_get record ''First cheque maximum'') of
        (PStr min_cheque, PStr max_cheque) \<Rightarrow>
          (if min_cheque \<noteq> [] \<and> max_cheque \<noteq> [] \<and> min_cheque \<noteq> ''N/A'' \<and> max_cheque \<noteq> ''N/A''
           then (min_cheque, max_cheque) # cheque_data rest
           else cheque_data rest)
      | _ \<Rightarrow> cheque_data rest)"

text \<open>The three rankings of the report: the five most frequent values, each with its share
  of \<^verbatim>\<open>total_investors = len(data)\<close>.\<close>

definition type_entries :: "row list \<Rightarrow> pyexc + (string \<times> nat \<times> rat) list" where
  "type_entries data =
     percent_entries (take 5 (sorted_desc snd (count_values ''Investor type'' data [])))
       (length data)"

definition stage_top_entries :: "row list \<Rightarrow> pyexc + (string \<times> nat \<times> rat) list" where
  "stage_top_entries data =
     percent_entries (take 5 (sorted_desc snd (count_values ''Stage of investment'' data [])))
       (length data)"

definition country_entries :: "row list \<Rightarrow> pyexc + (string \<times> nat \<times> rat) list" where
  "country_entries data =
     percent_entries (take 5 (sorted_desc snd (count_countries data []))) (length data)"

definition cheque_lines :: "env \<Rightarrow> row list \<Rightarrow> pyexc + string" where
  "cheque_lines e data =
     (let n = length (cheque_data data) in
      if n = 0 then Inr []
      else (case percentage n (length data) of
              Inl ex \<Rightarrow> Inl ex
            | Inr p \<Rightarrow> Inr (nl @ ''Cheque Size Data:'' @ nl @
                             bullet @ '' Investors with cheque data: '' @ str_nat n @ nl @
                             bullet @ '' Percentage with cheque data: '' @ format_1f e p @ ''%'' @ nl)))"

definition statistics_report :: "env \<Rightarrow> row list \<Rightarrow> pyexc + string" where
  "statistics_report e data =
     (case type_entries data of
        Inl ex \<Rightarrow> Inl ex
      | Inr types \<Rightarrow>
     (case stage_top_entries data of
        Inl ex \<Rightarrow> Inl ex
      | Inr stages \<Rightarrow>
     (case country_entries data of
        Inl ex \<Rightarrow> Inl ex
      | Inr countries \<Rightarrow>
     (case cheque_lines e data of
        Inl ex \<Rightarrow> Inl ex
      | Inr cheques \<Rightarrow>
          Inr (''Investor Database Statistics:'' @ nl @ nl @
               ''Total Investors: '' @ str_nat (length data) @ nl @ nl @
               ''Top Investor Types:'' @ nl @ percent_lines e [] types @
               nl @ ''Top Investment Stages:'' @ nl @ percent_lines e [] stages @
               nl @ ''Top Investment Countries:'' @ nl @ percent_lines e [] countries @
               cheques)))))"

definition get_investor_statistics_body ::
  "env \<Rightarrow> query list \<Rightarrow> (pyexc + string) \<times> query list" where
  "get_investor_statistics_body e qs =
     (case fetch_data_from_supabase e ''dec-2024''
             (Some [''Investor name'', ''Investor type'', ''Stage of investment'',
                    ''Countries of investment'', ''Global HQ'',
                    ''First cheque minimum'', ''First cheque maximum'']) None None qs of
        (Inl ex, qs') \<Rightarrow> (Inl ex, qs')
      | (Inr data, qs') \<Rightarrow>
          (if data = [] then Inr no_data else statistics_report e data, qs'))"

definition get_investor_statistics :: "env \<Rightarrow> query list \<Rightarrow> string \<times> query list" where
  "get_investor_statistics e qs =
     handle ''An error occurred while getting statistics: '' (get_investor_statistics_body e qs)"

subsection \<open>\<^verbatim>\<open>find_similar_investors\<close>\<close>

record scored =
  investor :: row
  score :: nat
  factors :: "string list"

text \<open>\<^verbatim>\<open>target_hq and investor_hq and any(word in investor_hq for word in target_hq.split())\<close>\<close>

definition similar_hq :: "pyval \<Rightarrow> pyval \<Rightarrow> bool" where
  "similar_hq target_hq investor_hq =
     (case (target_hq, investor_hq) of
        (PStr t, PStr h) \<Rightarrow> t \<noteq> [] \<and> h \<noteq> [] \<and> list_ex (\<lambda>word. contains h word) (split_ws t)
      | _ \<Rightarrow> False)"

text \<open>The score and the factors of one candidate, accumulated in the order of the four tests.\<close>

definition score_investor :: "row \<Rightarrow> row \<Rightarrow> scored" where
  "score_investor target_investor candidate =
     (let target_type = dict_get target_investor ''Investor type'';
          target_stage = dict_get target_investor ''Stage of investment'';
          target_countries = dict_get target_investor ''Countries of investment'';
          s0 = (0::nat); f0 = [];
          (s1, f1) = (if dict_get candidate ''Investor type'' = target_type
                      then (s0 + 3, f0 @ [''same investor type'']) else (s0, f0));
          (s2, f2) = (if dict_get candidate ''Stage of investment'' = target_stage
                      then (s1 + 2, f1 @ [''same investment stage'']) else (s1, f1));
          (s3, f3) = (if dict_get candidate ''Countries of investment'' = target_countries
                      then (s2 + 2, f2 @ [''same investment countries'']) else (s2, f2));
          (s4, f4) = (if similar_hq (dict_get_default target_investor ''Global HQ'' (PStr []))
                                    (dict_get_default candidate ''Global HQ'' (PStr []))
                      then (s3 + 1, f3 @ [''similar HQ location'']) else (s3, f3))
      in \<lparr> investor = candidate, score = s4, factors = f4 \<rparr>)"

text \<open>The scoring loop: the record named like the target is skipped, a candidate with a
  positive score is appended.\<close>

fun score_candidates :: "string \<Rightarrow> row \<Rightarrow> row list \<Rightarrow> scored list" where
  "score_candidates investor_name target_investor [] = []"
| "score_candidates investor_name target_investor (candidate # rest) =
     (if dict_get candidate ''Investor name'' = PStr investor_name
      then score_candidates investor_name target_investor rest
      else let item = score_investor target_investor candidate in
        if score item > 0 then item # score_candidates investor_name target_investor rest
        else score_candidates investor_name target_investor rest)"

definition rank_similar :: "string \<Rightarrow> row \<Rightarrow> row list \<Rightarrow> scored list" where
  "rank_similar investor_name target_investor similar_data =
     sorted_desc score (score_candidates investor_name target_investor similar_data)"

definition similar_block :: "nat \<Rightarrow> scored \<Rightarrow> pyexc + string" where
  "similar_block i item =
     (case thesis_text (dict_get_default (investor item) ''Investment thesis'' NA) of
        Inl ex \<Rightarrow> Inl ex
      | Inr thesis \<Rightarrow> Inr (
          str_nat i @ ''. '' @ py_format (dict_get_default (investor item) ''Investor name'' NA) @
            '' (Similarity Score: '' @ str_nat (score item) @ '')'' @ nl @
          block_fields (investor item) @
          ''   Similarity Factors: '' @ join '', '' (factors item) @ nl @
          ''   Thesis: '' @ thesis @ nl @
          separator))"

fun similar_blocks :: "nat \<Rightarrow> scored list \<Rightarrow> pyexc + string" where
  "similar_blocks i [] = Inr []"
| "similar_blocks i (item # rest) =
     (case similar_block i item of
        Inl ex \<Rightarrow> Inl ex
      | Inr b \<Rightarrow> (case similar_blocks (Suc i) rest of
                   Inl ex \<Rightarrow> Inl ex
                 | Inr s \<Rightarrow> Inr (b @ s)))"

definition quote_name :: "string \<Rightarrow> string" where
  "quote_name investor_name = [CHR 0x27] @ investor_name @ [CHR 0x27]"

definition not_found :: "string \<Rightarrow> string" where
  "not_found investor_name = ''No investor found with name '' @ quote_name investor_name @ ''.''"

definition find_similar_investors_body ::
  "env \<Rightarrow> string \<Rightarrow> int option \<Rightarrow> query list \<Rightarrow> (pyexc + string) \<times> query list" where
  "find_similar_investors_body e investor_name limit qs =
     (case fetch_data_from_supabase e ''dec-2024''
             (Some [''Investor name'', ''Investor type'', ''Stage of investment'',
                    ''Countries of investment'', ''Global HQ''])
             (Some [(''Investor name'', investor_name)]) (Some 1) qs of
        (Inl ex, qs1) \<Rightarrow> (Inl ex, qs1)
      | (Inr [], qs1) \<Rightarrow> (Inr (not_found investor_name), qs1)
      | (Inr (target_investor # _), qs1) \<Rightarrow>
          (case fetch_data_from_supabase e ''dec-2024'' (Some all_columns) None None qs1 of
             (Inl ex, qs2) \<Rightarrow> (Inl ex, qs2)
           | (Inr similar_data, qs2) \<Rightarrow>
               (if similar_data = [] then Inr no_data
                else let scored_investors = rank_similar investor_name target_investor similar_data in
                  if scored_investors = [] then
                    Inr (''No similar investors found for '' @ quote_name investor_name @ ''.'')
                  else let limited = apply_limit limit scored_investors in
                    (case similar_blocks 1 (take 10 limited) of
                       Inl ex \<Rightarrow> Inl ex
                     | Inr blocks \<Rightarrow>
                         Inr (''Similar investors to '' @ quote_name investor_name @ '':'' @ nl @ nl @
                              blocks @
                              more_line (length limited) '' more similar investors.'')),
                qs2)))"

definition find_similar_investors ::
  "env \<Rightarrow> string \<Rightarrow> int option \<Rightarrow> query list \<Rightarrow> string \<times> query list" where
  "find_similar_investors e investor_name limit qs =
     handle ''An error occurred while finding similar investors: ''
       (find_similar_investors_body e investor_name limit qs)"

subsection \<open>The exposed operations\<close>

datatype tool_call =
    GetInvestorData "int option"
  | SearchInvestorsByCriteria "string option" "string option" "string option" "string option" "int option"
  | GetAvailableInvestorTypes
  | GetAvailableCountries
  | GetLocationSearchGuide
  | AnalyzeInvestmentStages
  | FindInvestorsByChequeSize "string option" "string option" "int option"
  | AnalyzeInvestmentThesis
  | GetInvestorStatistics
  | FindSimilarInvestors string "int option"

fun call_tool :: "env \<Rightarrow> tool_call \<Rightarrow> query list \<Rightarrow> string \<times> query list" where
  "call_tool e (GetInvestorData limit) qs = get_investor_data e limit qs"
| "call_tool e (SearchInvestorsByCriteria investor_type stage country hq_location limit) qs =
     search_investors_by_criteria e investor_type stage country hq_location limit qs"
| "call_tool e GetAvailableInvestorTypes qs = get_available_investor_types e qs"
| "call_tool e GetAvailableCountries qs = get_available_countries e qs"
| "call_tool e GetLocationSearchGuide qs = (get_location_search_guide, qs)"
| "call_tool e AnalyzeInvestmentStages qs = analyze_investment_stages e qs"
| "call_tool e (FindInvestorsByChequeSize min_amount max_amount limit) qs =
     find_investors_by_cheque_size e min_amount max_amount limit qs"
| "call_tool e AnalyzeInvestmentThesis qs = analyze_investment_thesis e qs"
| "call_tool e GetInvestorStatistics qs = get_investor_statistics e qs"
| "call_tool e (FindSimilarInvestors investor_name limit) qs =
     find_similar_investors e investor_name limit qs"

text \<open>The fixed phrase of each handler; the location guide has none, it only returns a constant.\<close>

fun error_phrase :: "tool_call \<Rightarrow> string" where
  "error_phrase (GetInvestorData _) = ''An error occurred while fetching investor data: ''"
| "error_phrase (SearchInvestorsByCriteria _ _ _ _ _) = ''An error occurred while searching investors: ''"
| "error_phrase GetAvailableInvestorTypes = ''An error occurred while fetching investor types: ''"
| "error_phrase GetAvailableCountries = ''An error occurred while fetching countries: ''"
| "error_phrase GetLocationSearchGuide = []"
| "error_phrase AnalyzeInvestmentStages = ''An error occurred while analyzing investment stages: ''"
| "error_phrase (FindInvestorsByChequeSize _ _ _) = ''An error occurred while searching by cheque size: ''"
| "error_phrase AnalyzeInvestmentThesis = ''An error occurred while analyzing investment thesis: ''"
| "error_phrase GetInvestorStatistics = ''An error occurred while getting statistics: ''"
| "error_phrase (FindSimilarInvestors _ _) = ''An error occurred while finding similar investors: ''"

text \<open>The body of each tool, and the query of the first fetch it makes.\<close>

fun tool_body :: "env \<Rightarrow> tool_call \<Rightarrow> query list \<Rightarrow> (pyexc + string) \<times> query list" where
  "tool_body e (GetInvestorData limit) qs = get_investor_data_body e limit qs"
| "tool_body e (SearchInvestorsByCriteria investor_type stage country hq_location limit) qs =
     search_investors_by_criteria_body e investor_type stage country hq_location limit qs"
| "tool_body e GetAvailableInvestorTypes qs = get_available_investor_types_body e qs"
| "tool_body e GetAvailableCountries qs = get_available_countries_body e qs"
| "tool_body e GetLocationSearchGuide qs = (Inr get_location_search_guide, qs)"
| "tool_body e AnalyzeInvestmentStages qs = analyze_investment_stages_body e qs"
| "tool_body e (FindInvestorsByChequeSize min_amount max_amount limit) qs =
     find_investors_by_cheque_size_body e min_amount max_amount limit qs"
| "tool_body e AnalyzeInvestmentThesis qs = analyze_investment_thesis_body e qs"
| "tool_body e GetInvestorStatistics qs = get_investor_statistics_body e qs"
| "tool_body e (FindSimilarInvestors investor_name limit) qs =
     find_similar_investors_body e investor_name limit qs"

fun first_query :: "tool_call \<Rightarrow> query option" where
  "first_query (GetInvestorData limit) = Some (build_query ''dec-2024'' (Some all_columns) None limit)"
| "first_query (SearchInvestorsByCriteria investor_type stage country hq_location limit) =
     Some (build_query ''dec-2024'' (Some all_columns)
             (Some (build_filters investor_type stage country hq_location)) limit)"
| "first_query GetAvailableInvestorTypes =
     Some (build_query ''dec-2024'' (Some [''Investor type'']) None None)"
| "first_query GetAvailableCountries =
     Some (build_query ''dec-2024'' (Some [''Countries of investment'']) None None)"
| "first_query GetLocationSearchGuide = None"
| "first_query AnalyzeInvestmentStages =
     Some (build_query ''dec-2024'' (Some [''Stage of investment'']) None None)"
| "first_query (FindInvestorsByChequeSize min_amount max_amount limit) =
     Some (build_query ''dec-2024'' (Some all_columns) None None)"
| "first_query AnalyzeInvestmentThesis =
     Some (build_query ''dec-2024''
             (Some [''Investment thesis'', ''Investor type'', ''Stage of investment'']) None None)"
| "first_query GetInvestorStatistics =
     Some (build_query ''dec-2024''
             (Some [''Investor name'', ''Investor type'', ''Stage of investment'',
                    ''Countries of investment'', ''Global HQ'',
                    ''First cheque minimum'', ''First cheque maximum'']) None None)"
| "first_query (FindSimilarInvestors investor_name limit) =
     Some (build_query ''dec-2024''
             (Some [''Investor name'', ''Investor type'', ''Stage of investment'',
                    ''Countries of investment'', ''Global HQ''])
             (Some [(''Investor name'', investor_name)]) (Some 1))"

text \<open>The tools that list or aggregate the records of one unfiltered fetch. The criteria
  search and the similar-investors lookup fetch with a filter and have messages of their own
  for an empty answer.\<close>

fun lists_or_aggregates :: "tool_call \<Rightarrow> bool" where
  "lists_or_aggregates (GetInvestorData _) = True"
| "lists_or_aggregates GetAvailableInvestorTypes = True"
| "lists_or_aggregates GetAvailableCountries = True"
| "lists_or_aggregates AnalyzeInvestmentStages = True"
| "lists_or_aggregates (FindInvestorsByChequeSize _ _ _) = True"
| "lists_or_aggregates AnalyzeInvestmentThesis = True"
| "lists_or_aggregates GetInvestorStatistics = True"
| "lists_or_aggregates _ = False"

text \<open>An environment with credentials whose remote store answers by the given function, for
  concrete runs.\<close>

definition sample_env :: "(query \<Rightarrow> string + row list) \<Rightarrow> env" where
  "sample_env answer =
     \<lparr> supabase_url = Some ''https://example.supabase.co'', supabase_key = Some ''key'',
       execute = answer, format_1f = (\<lambda>p. str_nat (nat \<lfloor>p\<rfloor>)) \<rparr>"

definition no_credentials_env :: env where
  "no_credentials_env =
     \<lparr> supabase_url = None, supabase_key = Some ''key'',
       execute = (\<lambda>q. Inr []), format_1f = (\<lambda>p. str_nat (nat \<lfloor>p\<rfloor>)) \<rparr>"

section \<open>Properties\<close>

subsection \<open>Thesis truncation\<close>

text \<open>
  Claim C6. For a thesis string of length \<open>L\<close>, the formatted thesis is the string itself
  when \<open>L\<close> is at most 100, and its first 100 characters followed by the three characters
  \<^verbatim>\<open>...\<close> when \<open>L\<close> exceeds 100; its length is \<open>min L 100 + 3\<close> in the second case and
  \<open>L\<close> in the first.
\<close>

theorem thesis_truncation:
  "thesis_text (PStr s) =
     Inr (if length s \<le> 100 then s else take 100 s @ ''...'')
   \<and> length (truncate_thesis s) =
     (if length s > 100 then min (length s) 100 + 3 else length s)"
  by (simp add: truncate_thesis_def)

lemmas lower_eval = lower_def lower_char_def upper_chars_def lower_chars_def

subsection \<open>Frequency counts\<close>

lemma dict_incr_sum: "sum_list (map snd (dict_incr k kvs)) = Suc (sum_list (map snd kvs))"
  by (induction kvs) auto

lemma count_values_sum:
  "sum_list (map snd (count_values field data counts)) =
     sum_list (map snd counts) + length (filter (\<lambda>r. truthy (dict_get r field)) data)"
  by (induction data arbitrary: counts) (auto simp: dict_incr_sum split: pyval.splits)

lemma incr_all_sum: "sum_list (map snd (incr_all ks counts)) = sum_list (map snd counts) + length ks"
  by (induction ks arbitrary: counts) (auto simp: dict_incr_sum)

lemma split_on_from_nonempty: "split_on_from sep cur s \<noteq> []"
  by (induction s arbitrary: cur) auto

lemma country_tokens_length: "1 \<le> length (country_tokens s)"
  using split_on_from_nonempty [of "CHR '',''" "[]" s]
  by (cases "split_on_from (CHR '','') [] s") (auto simp: country_tokens_def split_on_def)

lemma count_countries_sum:
  "sum_list (map snd counts) + length (filter (\<lambda>r. truthy (dict_get r ''Countries of investment'')) data)
     \<le> sum_list (map snd (count_countries data counts))"
proof (induction data arbitrary: counts)
  case Nil
  then show ?case by simp
next
  case (Cons r rest)
  show ?case
  proof (cases "dict_get r ''Countries of investment''")
    case PNone
    then show ?thesis using Cons.IH [of counts] by simp
  next
    case (PStr s)
    show ?thesis
    proof (cases "s = []")
      case True
      then show ?thesis using PStr Cons.IH [of counts] by simp
    next
      case False
      have "sum_list (map snd counts) + 1 \<le> sum_list (map snd (incr_all (country_tokens s) counts))"
        using country_tokens_length [of s] by (simp add: incr_all_sum)
      then show ?thesis
        using PStr False Cons.IH [of "incr_all (country_tokens s) counts"] by simp
    qed
  qed
qed

text \<open>
  Claim C9. The per-value counts of a single-valued column (investor type, stage) add up to
  the number of records whose value for the column is not empty; the per-token counts of the
  comma-split countries column add up to at least the number of records that contribute a
  token, which are the records with a non-empty countries value.
\<close>

theorem frequency_count_sums:
  "sum_list (map snd (count_values field data [])) =
     length (filter (\<lambda>r. truthy (dict_get r field)) data)
   \<and> length (filter (\<lambda>r. truthy (dict_get r ''Countries of investment'')) data)
     \<le> sum_list (map snd (count_countries data []))"
  using count_countries_sum [of "[]" data] by (simp add: count_values_sum)

subsection \<open>Percentages\<close>

lemma percent_entries_ok:
  "t \<noteq> 0 \<Longrightarrow> percent_entries xs t = Inr (map (\<lambda>(v, c). (v, c, of_nat c / of_nat t * 100)) xs)"
  by (induction xs) (auto simp: percentage_def)

lemma count_values_none:
  "filter (\<lambda>r. truthy (dict_get r field)) data = [] \<Longrightarrow> count_values field data counts = counts"
  by (induction data arbitrary: counts) (auto split: pyval.splits if_splits)

lemma count_values_filter:
  "count_values field (filter (\<lambda>r. truthy (dict_get r field)) data) counts = count_values field data counts"
  by (induction data arbitrary: counts) (auto split: pyval.splits)

lemma count_countries_filter:
  "count_countries (filter (\<lambda>r. truthy (dict_get r ''Countries of investment'')) data) counts =
     count_countries data counts"
  by (induction data arbitrary: counts) (auto split: pyval.splits)

lemma stage_entries_eq:
  "stage_entries data =
     Inr (map (\<lambda>(v, c). (v, c,
                of_nat c / of_nat (length (filter (\<lambda>r. truthy (dict_get r ''Stage of investment'')) data)) * 100))
            (sorted_desc snd (count_values ''Stage of investment'' data [])))"
proof (cases "filter (\<lambda>r. truthy (dict_get r ''Stage of investment'')) data = []")
  case True
  then have "count_values ''Stage of investment'' data [] = []"
    by (rule count_values_none)
  then show ?thesis by (simp add: stage_entries_def sorted_desc_def)
next
  case False
  then have "length (filter (\<lambda>r. truthy (dict_get r ''Stage of investment'')) data) \<noteq> 0"
    by simp
  then show ?thesis
    by (simp add: stage_entries_def Let_def count_values_sum percent_entries_ok)
qed

text \<open>
  Claim C1, as stated, fails for the investor statistics: with one record of type VC and one
  record without a type, the type VC is reported with 50 percent, its count divided by the
  two records fetched, while the non-missing total is one.
\<close>

theorem statistics_percentage_counterexample:
  "type_entries [map_of [(''Investor type'', PStr ''VC'')], map_of []] = Inr [(''VC'', 1, 50)]
   \<and> length (present_values ''Investor type'' [map_of [(''Investor type'', PStr ''VC'')], map_of []]) = 1
   \<and> (50::rat) \<noteq> of_nat 1 / of_nat 1 * 100"
  by (simp add: type_entries_def sorted_desc_def dict_get_def percentage_def)

text \<open>
  Claim C1, amended. Every frequency count skips the records whose value for the column is
  missing or empty. In the stage distribution each percentage is the count of the value
  divided by the non-missing total, the number of records with a non-empty stage. In the
  investor statistics (types, stages, countries) each percentage is the count divided by the
  number of all records fetched.
\<close>

theorem percentage_denominators:
  "stage_entries data =
     Inr (map (\<lambda>(v, c). (v, c,
                of_nat c / of_nat (length (filter (\<lambda>r. truthy (dict_get r ''Stage of investment'')) data)) * 100))
            (sorted_desc snd (count_values ''Stage of investment'' data [])))
   \<and> type_entries data =
     Inr (map (\<lambda>(v, c). (v, c, of_nat c / of_nat (length data) * 100))
            (take 5 (sorted_desc snd (count_values ''Investor type'' data []))))
   \<and> stage_top_entries data =
     Inr (map (\<lambda>(v, c). (v, c, of_nat c / of_nat (length data) * 100))
            (take 5 (sorted_desc snd (count_values ''Stage of investment'' data []))))
   \<and> country_entries data =
     Inr (map (\<lambda>(v, c). (v, c, of_nat c / of_nat (length data) * 100))
            (take 5 (sorted_desc snd (count_countries data []))))
   \<and> count_values field (filter (\<lambda>r. truthy (dict_get r field)) data) [] = count_values field data []
   \<and> count_countries (filter (\<lambda>r. truthy (dict_get r ''Countries of investment'')) data) [] =
       count_countries data []"
proof (cases "data = []")
  case True
  then show ?thesis
    by (simp add: stage_entries_def type_entries_def stage_top_entries_def country_entries_def
        sorted_desc_def)
next
  case False
  then have "length data \<noteq> 0" by simp
  then show ?thesis
    by (simp add: stage_entries_eq type_entries_def stage_top_entries_def country_entries_def
        percent_entries_ok count_values_filter count_countries_filter)
qed

subsection \<open>The cheque-range filter\<close>

lemma include_investor_rule: "include_investor a b r = cheque_rule a b r"
  by (auto simp: include_investor_def cheque_rule_def rejected_by_min_def rejected_by_max_def Let_def
      split: pyval.splits option.splits)

text \<open>
  Claim C2, as stated, fails in its example: a record with minimum cheque \<^verbatim>\<open>9M\<close> is kept, not
  rejected, by the bound \<^verbatim>\<open>10M\<close>, because \<^verbatim>\<open>9m\<close> is not below \<^verbatim>\<open>10m\<close> as a string.
\<close>

theorem cheque_9M_counterexample:
  "filter_by_cheque (Some ''10M'') None
     [map_of [(''First cheque minimum'', PStr ''9M''), (''First cheque maximum'', PStr ''20M'')]]
   = [map_of [(''First cheque minimum'', PStr ''9M''), (''First cheque maximum'', PStr ''20M'')]]"
  by (simp add: filter_by_cheque_def include_investor_def dict_get_def lower_eval)

text \<open>
  Claim C2, amended. The filter drops every record that lacks a non-empty value in either
  cheque field. A record with both is kept unless a supplied, non-empty minimum bound is
  above its lower-cased minimum-cheque string, or a supplied, non-empty maximum bound is
  below its lower-cased maximum-cheque string, in the lexicographic order of strings. The
  bound \<^verbatim>\<open>10M\<close> does not reject the minimum cheque \<^verbatim>\<open>9M\<close>.
\<close>

theorem cheque_filter_rule:
  "include_investor min_amount max_amount r = cheque_rule min_amount max_amount r
   \<and> filter_by_cheque min_amount max_amount data = filter (cheque_rule min_amount max_amount) data
   \<and> \<not> rejected_by_min (Some ''10M'') ''9M''"
proof -
  have "include_investor min_amount max_amount = cheque_rule min_amount max_amount"
    by (rule ext) (rule include_investor_rule)
  then show ?thesis
    by (simp add: filter_by_cheque_def rejected_by_min_def lower_eval)
qed

theorem cheque_filter_rule_witness:
  "cheque_rule (Some ''1M'') (Some ''5M'')
     (map_of [(''First cheque minimum'', PStr ''2M''), (''First cheque maximum'', PStr ''3M'')])
   \<and> \<not> cheque_rule (Some ''1M'') (Some ''5M'')
     (map_of [(''First cheque minimum'', PStr ''2M''), (''First cheque maximum'', PNone)])"
  using cheque_filter_rule [of "Some ''1M''" "Some ''5M''"
      "map_of [(''First cheque minimum'', PStr ''2M''), (''First cheque maximum'', PStr ''3M'')]" "[]"]
  by (simp add: cheque_rule_def rejected_by_min_def rejected_by_max_def dict_get_def lower_eval)

subsection \<open>Similarity scoring\<close>

lemma starts_with_iff: "starts_with s p \<longleftrightarrow> (\<exists>r. s = p @ r)"
  by (induction s p rule: starts_with.induct) auto

text \<open>\<^const>\<open>contains\<close> is the substring test.\<close>

lemma contains_iff: "contains h n \<longleftrightarrow> (\<exists>p s. h = p @ n @ s)"
proof (induction h)
  case Nil
  then show ?case by auto
next
  case (Cons c cs)
  show ?case
  proof
    assume "contains (c # cs) n"
    then consider "starts_with (c # cs) n" | "contains cs n" by auto
    then show "\<exists>p s. c # cs = p @ n @ s"
    proof cases
      case 1
      then obtain r where "c # cs = n @ r" by (auto simp: starts_with_iff)
      then have "c # cs = [] @ n @ r" by simp
      then show ?thesis by blast
    next
      case 2
      then obtain p s where "cs = p @ n @ s" using Cons.IH by auto
      then have "c # cs = (c # p) @ n @ s" by simp
      then show ?thesis by blast
    qed
  next
    assume "\<exists>p s. c # cs = p @ n @ s"
    then obtain p s where ps: "c # cs = p @ n @ s" by auto
    show "contains (c # cs) n"
    proof (cases p)
      case Nil
      then have "starts_with (c # cs) n" using ps by (auto simp: starts_with_iff)
      then show ?thesis by simp
    next
      case (Cons a p')
      then have "cs = p' @ n @ s" using ps by simp
      then have "contains cs n" using Cons.IH by blast
      then show ?thesis by simp
    qed
  qed
qed

text \<open>The tokens of \<^const>\<open>split_ws\<close> are not empty and hold no white space.\<close>

lemma split_ws_from_tokens:
  "\<not> list_ex is_space cur \<Longrightarrow> w \<in> set (split_ws_from cur s) \<Longrightarrow> w \<noteq> [] \<and> \<not> list_ex is_space w"
proof (induction s arbitrary: cur)
  case Nil
  then show ?case by (cases "cur = []") simp_all
next
  case (Cons c cs)
  show ?case
  proof (cases "is_space c")
    case True
    have e: "\<not> list_ex is_space []" by simp
    show ?thesis
    proof (cases "cur = []")
      case True
      with \<open>is_space c\<close> Cons.prems(2) have "w \<in> set (split_ws_from [] cs)" by simp
      then show ?thesis using Cons.IH [OF e] by simp
    next
      case False
      with \<open>is_space c\<close> Cons.prems(2) have "w = cur \<or> w \<in> set (split_ws_from [] cs)" by simp
      then show ?thesis using Cons.IH [OF e] Cons.prems(1) False by blast
    qed
  next
    case False
    with Cons.prems(2) have m: "w \<in> set (split_ws_from (cur @ [c]) cs)" by simp
    have "\<not> list_ex is_space (cur @ [c])" using False Cons.prems(1) by (simp add: list_ex_iff)
    then show ?thesis using Cons.IH m by blast
  qed
qed

lemma split_ws_tokens: "w \<in> set (split_ws s) \<Longrightarrow> w \<noteq> [] \<and> \<not> list_ex is_space w"
  using split_ws_from_tokens [of "[]" w s] by (simp add: split_ws_def)

lemma score_investor_score:
  "score (score_investor t c) =
     (if dict_get c ''Investor type'' = dict_get t ''Investor type'' then 3 else 0) +
     (if dict_get c ''Stage of investment'' = dict_get t ''Stage of investment'' then 2 else 0) +
     (if dict_get c ''Countries of investment'' = dict_get t ''Countries of investment'' then 2 else 0) +
     (if similar_hq (dict_get_default t ''Global HQ'' (PStr [])) (dict_get_default c ''Global HQ'' (PStr []))
      then 1 else 0)"
  by (simp add: score_investor_def Let_def)

lemma score_candidates_filter:
  "score_candidates n t cs =
     filter (\<lambda>i. score i > 0)
       (map (score_investor t) (filter (\<lambda>c. dict_get c ''Investor name'' \<noteq> PStr n) cs))"
  by (induction cs) (auto simp: Let_def)

lemma sorted_desc_sorted: "sorted_wrt (\<lambda>a b. key a \<ge> key b) (sorted_desc key xs)"
proof -
  have "sorted (map (\<lambda>x. - int (key x)) (sort_key (\<lambda>x. - int (key x)) xs))"
    by (rule sorted_sort_key)
  then show ?thesis by (simp add: sorted_desc_def sorted_map)
qed

lemma sorted_desc_stable: "filter (\<lambda>x. key x = k) (sorted_desc key xs) = filter (\<lambda>x. key x = k) xs"
proof -
  have "filter (\<lambda>x. - int (key x) = - int k) (sort_key (\<lambda>x. - int (key x)) xs) =
        filter (\<lambda>x. - int (key x) = - int k) xs"
    by (rule sort_key_stable)
  then show ?thesis by (simp add: sorted_desc_def)
qed

lemma similar_hq_iff:
  "similar_hq (PStr th) (PStr ch) \<longleftrightarrow>
     th \<noteq> [] \<and> ch \<noteq> [] \<and> (\<exists>w. w \<in> set (split_ws th) \<and> (\<exists>p s. ch = p @ w @ s))"
  by (auto simp: similar_hq_def list_ex_iff contains_iff)

lemma score_seven:
  assumes "dict_get c ''Investor type'' = dict_get t ''Investor type''"
    and "dict_get c ''Stage of investment'' = dict_get t ''Stage of investment''"
    and "dict_get c ''Countries of investment'' = dict_get t ''Countries of investment''"
    and "\<not> similar_hq (dict_get_default t ''Global HQ'' (PStr [])) (dict_get_default c ''Global HQ'' (PStr []))"
  shows "score (score_investor t c) = 7 \<and>
         factors (score_investor t c) =
           [''same investor type'', ''same investment stage'', ''same investment countries'']"
  using assms by (simp add: score_investor_def Let_def)

text \<open>
  Claim C3. The score of a candidate \<open>c\<close> against the target \<open>t\<close> is the sum of 3 for an equal
  investor type, 2 for an equal stage, 2 for an equal countries value and 1 when the
  candidate's HQ string contains, as a substring, one of the tokens that white space
  delimits in the target's HQ. The scoring loop skips the records named like the target
  and drops the candidates of score 0. The ranking is in descending order of score, and the
  candidates of any one score keep the order in which they were met. A candidate equal to
  the target in type, stage and countries and without HQ overlap has score 7 and the three
  factors for type, stage and countries, in this order.
\<close>

theorem similarity_scoring:
  "score (score_investor t c) =
     (if dict_get c ''Investor type'' = dict_get t ''Investor type'' then 3 else 0) +
     (if dict_get c ''Stage of investment'' = dict_get t ''Stage of investment'' then 2 else 0) +
     (if dict_get c ''Countries of investment'' = dict_get t ''Countries of investment'' then 2 else 0) +
     (if similar_hq (dict_get_default t ''Global HQ'' (PStr [])) (dict_get_default c ''Global HQ'' (PStr []))
      then 1 else 0)
   \<and> (similar_hq (PStr th) (PStr ch) \<longleftrightarrow>
        th \<noteq> [] \<and> ch \<noteq> [] \<and> (\<exists>w. w \<in> set (split_ws th) \<and> (\<exists>p s. ch = p @ w @ s)))
   \<and> \<not> similar_hq PNone hq \<and> \<not> similar_hq hq PNone
   \<and> score_candidates n t cs =
        filter (\<lambda>i. score i > 0)
          (map (score_investor t) (filter (\<lambda>c. dict_get c ''Investor name'' \<noteq> PStr n) cs))
   \<and> sorted_wrt (\<lambda>a b. score a \<ge> score b) (rank_similar n t cs)
   \<and> (\<forall>k. filter (\<lambda>i. score i = k) (rank_similar n t cs) =
            filter (\<lambda>i. score i = k) (score_candidates n t cs))
   \<and> (dict_get c ''Investor type'' = dict_get t ''Investor type'' \<and>
      dict_get c ''Stage of investment'' = dict_get t ''Stage of investment'' \<and>
      dict_get c ''Countries of investment'' = dict_get t ''Countries of investment'' \<and>
      \<not> similar_hq (dict_get_default t ''Global HQ'' (PStr [])) (dict_get_default c ''Global HQ'' (PStr []))
      \<longrightarrow> score (score_investor t c) = 7 \<and>
          factors (score_investor t c) =
            [''same investor type'', ''same investment stage'', ''same investment countries''])"
proof -
  have hq: "\<not> similar_hq PNone hq \<and> \<not> similar_hq hq PNone"
    by (cases hq) (simp_all add: similar_hq_def)
  have stable: "\<forall>k. filter (\<lambda>i. score i = k) (rank_similar n t cs) =
                    filter (\<lambda>i. score i = k) (score_candidates n t cs)"
    by (simp add: rank_similar_def sorted_desc_stable)
  have ranked: "sorted_wrt (\<lambda>a b. score a \<ge> score b) (rank_similar n t cs)"
    unfolding rank_similar_def by (rule sorted_desc_sorted)
  show ?thesis
    using hq stable ranked score_investor_score [of t c] similar_hq_iff [of th ch]
      score_candidates_filter [of n t cs] score_seven [of c t]
    by blast
qed

theorem similarity_scoring_witness:
  "score (score_investor
      (map_of [(''Investor name'', PStr ''Acme''), (''Investor type'', PStr ''VC''),
               (''Stage of investment'', PStr ''Seed''), (''Countries of investment'', PStr ''USA, UK''),
               (''Global HQ'', PStr ''Paris France'')])
      (map_of [(''Investor name'', PStr ''Bolt''), (''Investor type'', PStr ''VC''),
               (''Stage of investment'', PStr ''Seed''), (''Countries of investment'', PStr ''USA, UK''),
               (''Global HQ'', PStr ''Berlin'')])) = 7
   \<and> factors (score_investor
      (map_of [(''Investor name'', PStr ''Acme''), (''Investor type'', PStr ''VC''),
               (''Stage of investment'', PStr ''Seed''), (''Countries of investment'', PStr ''USA, UK''),
               (''Global HQ'', PStr ''Paris France'')])
      (map_of [(''Investor name'', PStr ''Bolt''), (''Investor type'', PStr ''VC''),
               (''Stage of investment'', PStr ''Seed''), (''Countries of investment'', PStr ''USA, UK''),
               (''Global HQ'', PStr ''Berlin'')]))
     = [''same investor type'', ''same investment stage'', ''same investment countries'']"
proof -
  let ?t = "map_of [(''Investor name'', PStr ''Acme''), (''Investor type'', PStr ''VC''),
               (''Stage of investment'', PStr ''Seed''), (''Countries of investment'', PStr ''USA, UK''),
               (''Global HQ'', PStr ''Paris France'')]"
  let ?c = "map_of [(''Investor name'', PStr ''Bolt''), (''Investor type'', PStr ''VC''),
               (''Stage of investment'', PStr ''Seed''), (''Countries of investment'', PStr ''USA, UK''),
               (''Global HQ'', PStr ''Berlin'')]"
  have same: "dict_get ?c ''Investor type'' = dict_get ?t ''Investor type'' \<and>
      dict_get ?c ''Stage of investment'' = dict_get ?t ''Stage of investment'' \<and>
      dict_get ?c ''Countries of investment'' = dict_get ?t ''Countries of investment''"
    by (simp add: dict_get_def)
  have far: "\<not> similar_hq (dict_get_default ?t ''Global HQ'' (PStr []))
                           (dict_get_default ?c ''Global HQ'' (PStr []))"
    by (simp add: dict_get_default_def similar_hq_def split_ws_def is_space_def space_chars_def)
  show ?thesis
    using similarity_scoring [of ?t ?c "[]" "[]" PNone "[]" "[]"] same far by blast
qed

subsection \<open>Fetching, failures and limits\<close>

lemma fetch_no_credentials:
  "\<not> truthy_arg (supabase_url e) \<or> \<not> truthy_arg (supabase_key e) \<Longrightarrow>
   fetch_data_from_supabase e t cols fs l qs = (Inl (ValueError credentials_message), qs)"
  by (simp add: fetch_data_from_supabase_def)

lemma fetch_failure:
  "truthy_arg (supabase_url e) \<Longrightarrow> truthy_arg (supabase_key e) \<Longrightarrow>
   execute e (build_query t cols fs l) = Inl m \<Longrightarrow>
   fetch_data_from_supabase e t cols fs l qs =
     (Inl (Exception (''Error fetching data from Supabase: '' @ m)), qs @ [build_query t cols fs l])"
  by (simp add: fetch_data_from_supabase_def)

lemma fetch_rows:
  "truthy_arg (supabase_url e) \<Longrightarrow> truthy_arg (supabase_key e) \<Longrightarrow>
   execute e (build_query t cols fs l) = Inr rows \<Longrightarrow>
   fetch_data_from_supabase e t cols fs l qs = (Inr rows, qs @ [build_query t cols fs l])"
  by (simp add: fetch_data_from_supabase_def)

lemmas body_defs =
  get_investor_data_body_def search_investors_by_criteria_body_def
  get_available_investor_types_body_def get_available_countries_body_def
  analyze_investment_stages_body_def find_investors_by_cheque_size_body_def
  analyze_investment_thesis_body_def get_investor_statistics_body_def
  find_similar_investors_body_def

lemmas tool_defs =
  get_investor_data_def search_investors_by_criteria_def
  get_available_investor_types_def get_available_countries_def
  analyze_investment_stages_def find_investors_by_cheque_size_def
  analyze_investment_thesis_def get_investor_statistics_def
  find_similar_investors_def

lemma call_tool_handle: "call_tool e c qs = handle (error_phrase c) (tool_body e c qs)"
  by (cases c) (simp_all add: tool_defs handle_def)

lemma body_no_credentials:
  "\<not> truthy_arg (supabase_url e) \<or> \<not> truthy_arg (supabase_key e) \<Longrightarrow> first_query c \<noteq> None \<Longrightarrow>
   tool_body e c qs = (Inl (ValueError credentials_message), qs)"
  by (cases c) (simp_all add: body_defs fetch_no_credentials)

lemma body_failure:
  "truthy_arg (supabase_url e) \<Longrightarrow> truthy_arg (supabase_key e) \<Longrightarrow>
   first_query c = Some q \<Longrightarrow> execute e q = Inl m \<Longrightarrow>
   tool_body e c qs = (Inl (Exception (''Error fetching data from Supabase: '' @ m)), qs @ [q])"
  by (cases c) (auto simp: body_defs fetch_failure)

lemma body_empty:
  "truthy_arg (supabase_url e) \<Longrightarrow> truthy_arg (supabase_key e) \<Longrightarrow>
   first_query c = Some q \<Longrightarrow> execute e q = Inr [] \<Longrightarrow> lists_or_aggregates c \<Longrightarrow>
   tool_body e c qs = (Inr no_data, qs @ [q])"
  by (cases c) (auto simp: body_defs fetch_rows)

lemma similar_not_found:
  "truthy_arg (supabase_url e) \<Longrightarrow> truthy_arg (supabase_key e) \<Longrightarrow>
   first_query (FindSimilarInvestors n l) = Some q \<Longrightarrow> execute e q = Inr [] \<Longrightarrow>
   find_similar_investors e n l qs = (not_found n, qs @ [q])"
  by (auto simp: find_similar_investors_def find_similar_investors_body_def fetch_rows handle_def)

lemma build_query_zero: "build_query t cols fs (Some 0) = build_query t cols fs None"
  by (simp add: build_query_def truthy_int_def)

lemma fetch_zero:
  "fetch_data_from_supabase e t cols fs (Some 0) qs = fetch_data_from_supabase e t cols fs None qs"
  by (simp add: fetch_data_from_supabase_def build_query_zero)

lemma apply_limit_zero: "apply_limit (Some 0) = apply_limit None"
  by (rule ext) (simp add: apply_limit_def)

lemma apply_limit_uncut: "apply_limit (Some 0) xs = xs \<and> apply_limit None xs = xs"
  by (simp add: apply_limit_def)

lemma build_query_zero_limit: "q_limit (build_query t cols fs (Some 0)) = None"
  by (simp add: build_query_def truthy_int_def)

lemma listing_zero_limit:
  assumes "truthy_arg (supabase_url e)" "truthy_arg (supabase_key e)"
    and "execute e (build_query ''dec-2024'' (Some all_columns) None None) = Inr data"
    and "data \<noteq> []"
  shows "get_investor_data_body e (Some 0) qs =
           (format_listing (''Found '' @ str_nat (length data) @ '' investor records:'' @ nl @ nl) data,
            qs @ [build_query ''dec-2024'' (Some all_columns) None None])"
  using assms by (simp add: get_investor_data_body_def fetch_zero fetch_rows)

lemma search_zero_limit:
  assumes "truthy_arg (supabase_url e)" "truthy_arg (supabase_key e)"
    and "execute e (build_query ''dec-2024'' (Some all_columns)
                      (Some (build_filters ty st co hq)) None) = Inr data"
    and "data \<noteq> []"
  shows "search_investors_by_criteria_body e ty st co hq (Some 0) qs =
           (format_listing
              (''Found '' @ str_nat (length data) @ '' investors matching your criteria:'' @ nl @ nl) data,
            qs @ [build_query ''dec-2024'' (Some all_columns) (Some (build_filters ty st co hq)) None])"
  using assms by (simp add: search_investors_by_criteria_body_def fetch_zero fetch_rows)

lemma cheque_zero_limit:
  assumes "truthy_arg (supabase_url e)" "truthy_arg (supabase_key e)"
    and "execute e (build_query ''dec-2024'' (Some all_columns) None None) = Inr data"
    and "filter_by_cheque lo hi data \<noteq> []"
  shows "find_investors_by_cheque_size_body e lo hi (Some 0) qs =
           (format_listing
              (''Found '' @ str_nat (length (filter_by_cheque lo hi data)) @
               '' investors matching your criteria:'' @ nl @ nl)
              (filter_by_cheque lo hi data),
            qs @ [build_query ''dec-2024'' (Some all_columns) None None])"
proof -
  have "data \<noteq> []" using assms(4) by (auto simp: filter_by_cheque_def)
  then show ?thesis
    using assms
    by (simp add: find_investors_by_cheque_size_body_def fetch_rows apply_limit_uncut Let_def)
qed

lemma similar_zero_limit:
  assumes "truthy_arg (supabase_url e)" "truthy_arg (supabase_key e)"
    and "execute e (build_query ''dec-2024''
                      (Some [''Investor name'', ''Investor type'', ''Stage of investment'',
                             ''Countries of investment'', ''Global HQ''])
                      (Some [(''Investor name'', n)]) (Some 1)) = Inr (tgt # others)"
    and "execute e (build_query ''dec-2024'' (Some all_columns) None None) = Inr data"
    and "rank_similar n tgt data \<noteq> []"
  shows "find_similar_investors_body e n (Some 0) qs =
           (case similar_blocks 1 (take 10 (rank_similar n tgt data)) of
              Inl ex \<Rightarrow> Inl ex
            | Inr blocks \<Rightarrow>
                Inr (''Similar investors to '' @ quote_name n @ '':'' @ nl @ nl @ blocks @
                     more_line (length (rank_similar n tgt data)) '' more similar investors.''),
            qs @ [build_query ''dec-2024''
                    (Some [''Investor name'', ''Investor type'', ''Stage of investment'',
                           ''Countries of investment'', ''Global HQ''])
                    (Some [(''Investor name'', n)]) (Some 1),
                  build_query ''dec-2024'' (Some all_columns) None None])"
proof -
  have "data \<noteq> []" using assms(5) by (auto simp: rank_similar_def sorted_desc_def)
  then show ?thesis
    using assms
    by (simp add: find_similar_investors_body_def fetch_rows apply_limit_uncut Let_def)
qed


text \<open>
  Claim C10. A limit of 0 behaves as no limit. The fetch builds the same query, which carries
  no limit, and the truncation leaves the filtered or scored list as it is, so each of the
  four tools that take a limit returns the same text and executes the same queries for
  \<open>Some 0\<close> as for \<open>None\<close>. At limit 0 every tool formats the whole list of the records
  fetched, filtered or ranked, not an empty one.
\<close>

theorem zero_limit_is_no_limit:
  "fetch_data_from_supabase e t cols fs (Some 0) qs = fetch_data_from_supabase e t cols fs None qs
   \<and> get_investor_data e (Some 0) qs = get_investor_data e None qs
   \<and> search_investors_by_criteria e ty st co hq (Some 0) qs =
       search_investors_by_criteria e ty st co hq None qs
   \<and> find_investors_by_cheque_size e lo hi (Some 0) qs = find_investors_by_cheque_size e lo hi None qs
   \<and> find_similar_investors e n (Some 0) qs = find_similar_investors e n None qs
   \<and> apply_limit (Some 0) xs = xs \<and> apply_limit None xs = xs
   \<and> q_limit (build_query t cols fs (Some 0)) = None
   \<and> (truthy_arg (supabase_url e) \<and> truthy_arg (supabase_key e) \<and>
      execute e (build_query ''dec-2024'' (Some all_columns) None None) = Inr data \<and> data \<noteq> []
      \<longrightarrow> get_investor_data_body e (Some 0) qs =
            (format_listing
               (''Found '' @ str_nat (length data) @ '' investor records:'' @ nl @ nl) data,
             qs @ [build_query ''dec-2024'' (Some all_columns) None None]))
   \<and> (truthy_arg (supabase_url e) \<and> truthy_arg (supabase_key e) \<and>
      execute e (build_query ''dec-2024'' (Some all_columns)
                   (Some (build_filters ty st co hq)) None) = Inr found \<and> found \<noteq> []
      \<longrightarrow> search_investors_by_criteria_body e ty st co hq (Some 0) qs =
            (format_listing
               (''Found '' @ str_nat (length found) @ '' investors matching your criteria:'' @ nl @ nl)
               found,
             qs @ [build_query ''dec-2024'' (Some all_columns)
                     (Some (build_filters ty st co hq)) None]))
   \<and> (truthy_arg (supabase_url e) \<and> truthy_arg (supabase_key e) \<and>
      execute e (build_query ''dec-2024'' (Some all_columns) None None) = Inr data \<and>
      filter_by_cheque lo hi data \<noteq> []
      \<longrightarrow> find_investors_by_cheque_size_body e lo hi (Some 0) qs =
            (format_listing
               (''Found '' @ str_nat (length (filter_by_cheque lo hi data)) @
                '' investors matching your criteria:'' @ nl @ nl)
               (filter_by_cheque lo hi data),
             qs @ [build_query ''dec-2024'' (Some all_columns) None None]))
   \<and> (truthy_arg (supabase_url e) \<and> truthy_arg (supabase_key e) \<and>
      execute e (build_query ''dec-2024''
                   (Some [''Investor name'', ''Investor type'', ''Stage of investment'',
                          ''Countries of investment'', ''Global HQ''])
                   (Some [(''Investor name'', n)]) (Some 1)) = Inr (tgt # others) \<and>
      execute e (build_query ''dec-2024'' (Some all_columns) None None) = Inr data \<and>
      rank_similar n tgt data \<noteq> []
      \<longrightarrow> find_similar_investors_body e n (Some 0) qs =
            (case similar_blocks 1 (take 10 (rank_similar n tgt data)) of
               Inl ex \<Rightarrow> Inl ex
             | Inr blocks \<Rightarrow>
                 Inr (''Similar investors to '' @ quote_name n @ '':'' @ nl @ nl @ blocks @
                      more_line (length (rank_similar n tgt data)) '' more similar investors.''),
             qs @ [build_query ''dec-2024''
                     (Some [''Investor name'', ''Investor type'', ''Stage of investment'',
                            ''Countries of investment'', ''Global HQ''])
                     (Some [(''Investor name'', n)]) (Some 1),
                   build_query ''dec-2024'' (Some all_columns) None None]))"
proof -
  have same:
    "fetch_data_from_supabase e t cols fs (Some 0) qs = fetch_data_from_supabase e t cols fs None qs
     \<and> get_investor_data e (Some 0) qs = get_investor_data e None qs
     \<and> search_investors_by_criteria e ty st co hq (Some 0) qs =
         search_investors_by_criteria e ty st co hq None qs
     \<and> find_investors_by_cheque_size e lo hi (Some 0) qs = find_investors_by_cheque_size e lo hi None qs
     \<and> find_similar_investors e n (Some 0) qs = find_similar_investors e n None qs"
    unfolding tool_defs body_defs fetch_zero apply_limit_zero by simp
  show ?thesis
    using same apply_limit_uncut [of xs] build_query_zero_limit [of t cols fs]
      listing_zero_limit [of e data qs] search_zero_limit [of e ty st co hq found qs]
      cheque_zero_limit [of e data lo hi qs] similar_zero_limit [of e n tgt others data qs]
    by blast
qed

theorem zero_limit_is_no_limit_witness:
  "find_investors_by_cheque_size_body
     (sample_env (\<lambda>q. Inr
        [map_of [(''Investor name'', PStr ''Acme''), (''Investment thesis'', PStr ''AI''),
                 (''First cheque minimum'', PStr ''1M''), (''First cheque maximum'', PStr ''5M'')],
         map_of [(''Investor name'', PStr ''Bolt''), (''Investment thesis'', PStr ''SaaS''),
                 (''First cheque minimum'', PStr ''2M''), (''First cheque maximum'', PStr ''3M'')]]))
     None None (Some 0) []
   = (format_listing (''Found 2 investors matching your criteria:'' @ nl @ nl)
        [map_of [(''Investor name'', PStr ''Acme''), (''Investment thesis'', PStr ''AI''),
                 (''First cheque minimum'', PStr ''1M''), (''First cheque maximum'', PStr ''5M'')],
         map_of [(''Investor name'', PStr ''Bolt''), (''Investment thesis'', PStr ''SaaS''),
                 (''First cheque minimum'', PStr ''2M''), (''First cheque maximum'', PStr ''3M'')]],
      [build_query ''dec-2024'' (Some all_columns) None None])
   \<and> q_limit (build_query ''dec-2024'' (Some all_columns) None (Some 0)) = None"
proof -
  let ?r1 = "map_of [(''Investor name'', PStr ''Acme''), (''Investment thesis'', PStr ''AI''),
                 (''First cheque minimum'', PStr ''1M''), (''First cheque maximum'', PStr ''5M'')]"
  let ?r2 = "map_of [(''Investor name'', PStr ''Bolt''), (''Investment thesis'', PStr ''SaaS''),
                 (''First cheque minimum'', PStr ''2M''), (''First cheque maximum'', PStr ''3M'')]"
  let ?e = "sample_env (\<lambda>q. Inr [?r1, ?r2])"
  let ?q = "build_query ''dec-2024'' (Some all_columns) None None"
  have kept: "filter_by_cheque None None [?r1, ?r2] = [?r1, ?r2]"
    by (simp add: filter_by_cheque_def include_investor_def dict_get_def)
  have hyp: "truthy_arg (supabase_url ?e) \<and> truthy_arg (supabase_key ?e) \<and>
             execute ?e ?q = Inr [?r1, ?r2] \<and> filter_by_cheque None None [?r1, ?r2] \<noteq> []"
    unfolding kept by (simp add: sample_env_def truthy_arg_def)
  have run: "find_investors_by_cheque_size_body ?e None None (Some 0) [] =
      (format_listing
         (''Found '' @ str_nat (length (filter_by_cheque None None [?r1, ?r2])) @
          '' investors matching your criteria:'' @ nl @ nl)
         (filter_by_cheque None None [?r1, ?r2]),
       [] @ [?q])"
    using zero_limit_is_no_limit [of ?e "''dec-2024''" "Some all_columns" None "[]" None None None None
        None None "''x''" "[]::row list" "[?r1, ?r2]" "[]" "?r1" "[]"] hyp
    by blast
  have two: "str_nat (length [?r1, ?r2]) = ''2''"
    by (simp add: str_nat.simps digit_char_def)
  have lim: "q_limit (build_query ''dec-2024'' (Some all_columns) None (Some 0)) = None"
    by (simp add: build_query_def truthy_int_def)
  show ?thesis using run lim unfolding kept two by simp
qed

text \<open>
  Claim C4. Every tool returns a text: the text of its body, or, when the body raises, the
  fixed phrase of the tool followed by the message of the exception. Without credentials
  every tool that fetches returns its phrase followed by the configuration message and
  executes no query; when the remote store fails on the first query, the tool returns its
  phrase followed by the message of the wrapped execution error. The location guide returns
  its constant text.
\<close>

theorem tools_return_text:
  "call_tool e c qs = handle (error_phrase c) (tool_body e c qs)
   \<and> fst (call_tool e c qs) =
       (case fst (tool_body e c qs) of Inl ex \<Rightarrow> error_phrase c @ exc_str ex | Inr s \<Rightarrow> s)
   \<and> ((\<not> truthy_arg (supabase_url e) \<or> \<not> truthy_arg (supabase_key e)) \<and> first_query c \<noteq> None
        \<longrightarrow> call_tool e c qs = (error_phrase c @ credentials_message, qs))
   \<and> (truthy_arg (supabase_url e) \<and> truthy_arg (supabase_key e) \<and>
      first_query c = Some q \<and> execute e q = Inl m
        \<longrightarrow> call_tool e c qs =
            (error_phrase c @ ''Error fetching data from Supabase: '' @ m, qs @ [q]))
   \<and> call_tool e GetLocationSearchGuide qs = (get_location_search_guide, qs)"
proof -
  have a: "call_tool e c qs = handle (error_phrase c) (tool_body e c qs)"
    by (rule call_tool_handle)
  have b: "fst (call_tool e c qs) =
       (case fst (tool_body e c qs) of Inl ex \<Rightarrow> error_phrase c @ exc_str ex | Inr s \<Rightarrow> s)"
    by (simp add: a handle_def split: sum.splits)
  have c: "call_tool e c qs = (error_phrase c @ credentials_message, qs)"
    if "\<not> truthy_arg (supabase_url e) \<or> \<not> truthy_arg (supabase_key e)" "first_query c \<noteq> None"
    using body_no_credentials [OF that, of qs] by (simp add: a handle_def)
  have d: "call_tool e c qs =
            (error_phrase c @ ''Error fetching data from Supabase: '' @ m, qs @ [q])"
    if "truthy_arg (supabase_url e)" "truthy_arg (supabase_key e)"
       "first_query c = Some q" "execute e q = Inl m"
    using body_failure [OF that, of qs] by (simp add: a handle_def)
  show ?thesis using a b c d by simp
qed

theorem tools_return_text_witness:
  "call_tool no_credentials_env GetInvestorStatistics [] =
     (''An error occurred while getting statistics: Supabase credentials not found. Please set SUPABASE_URL and SUPABASE_KEY environment variables or add them to your .env file.'', [])
   \<and> fst (call_tool (sample_env (\<lambda>q. Inl ''timed out'')) AnalyzeInvestmentStages []) =
     ''An error occurred while analyzing investment stages: Error fetching data from Supabase: timed out''"
proof -
  let ?q = "build_query ''dec-2024'' (Some [''Stage of investment'']) None None"
  let ?e = "sample_env (\<lambda>q. Inl ''timed out'')"
  have h1: "(\<not> truthy_arg (supabase_url no_credentials_env) \<or>
             \<not> truthy_arg (supabase_key no_credentials_env)) \<and>
            first_query GetInvestorStatistics \<noteq> None"
    by (simp add: no_credentials_env_def truthy_arg_def)
  have h2: "truthy_arg (supabase_url ?e) \<and> truthy_arg (supabase_key ?e) \<and>
            first_query AnalyzeInvestmentStages = Some ?q \<and> execute ?e ?q = Inl ''timed out''"
    by (simp add: sample_env_def truthy_arg_def)
  have r1: "call_tool no_credentials_env GetInvestorStatistics [] =
          (error_phrase GetInvestorStatistics @ credentials_message, [])"
    using tools_return_text [of no_credentials_env GetInvestorStatistics "[]"] h1 by blast
  have r2: "call_tool ?e AnalyzeInvestmentStages [] =
          (error_phrase AnalyzeInvestmentStages @ ''Error fetching data from Supabase: '' @ ''timed out'',
           [] @ [?q])"
    using tools_return_text [of ?e AnalyzeInvestmentStages "[]" ?q "''timed out''"] h2 by blast
  have s1: "error_phrase GetInvestorStatistics @ credentials_message =
     ''An error occurred while getting statistics: Supabase credentials not found. Please set SUPABASE_URL and SUPABASE_KEY environment variables or add them to your .env file.''"
    by (simp add: credentials_message_def)
  have s2: "error_phrase AnalyzeInvestmentStages @ ''Error fetching data from Supabase: '' @ ''timed out'' =
     ''An error occurred while analyzing investment stages: Error fetching data from Supabase: timed out''"
    by simp
  show ?thesis unfolding r1 r2 s1 s2 by simp
qed

text \<open>
  Claim C7. When the lookup of the target returns no record, the similar-investors tool
  returns the message that no investor of that name was found, and the lookup is the only
  query it executes: there is no second fetch and no scoring.
\<close>

theorem similar_target_absent:
  "truthy_arg (supabase_url e) \<Longrightarrow> truthy_arg (supabase_key e) \<Longrightarrow>
   execute e (build_query ''dec-2024''
                (Some [''Investor name'', ''Investor type'', ''Stage of investment'',
                       ''Countries of investment'', ''Global HQ''])
                (Some [(''Investor name'', n)]) (Some 1)) = Inr [] \<Longrightarrow>
   find_similar_investors e n l qs =
     (''No investor found with name '' @ [CHR 0x27] @ n @ [CHR 0x27] @ ''.'',
      qs @ [build_query ''dec-2024''
              (Some [''Investor name'', ''Investor type'', ''Stage of investment'',
                     ''Countries of investment'', ''Global HQ''])
              (Some [(''Investor name'', n)]) (Some 1)])"
  using similar_not_found [of e n l _ qs] by (simp add: not_found_def quote_name_def)

theorem similar_target_absent_witness:
  "fst (find_similar_investors (sample_env (\<lambda>q. Inr [])) ''Acme Ventures'' None []) =
     ''No investor found with name 'Acme Ventures'.''
   \<and> length (snd (find_similar_investors (sample_env (\<lambda>q. Inr [])) ''Acme Ventures'' None [])) = 1"
  using similar_target_absent [of "sample_env (\<lambda>q. Inr [])" "''Acme Ventures''" None "[]"]
  by (simp add: sample_env_def truthy_arg_def)

text \<open>
  Claim C8. When the fetch of a listing or aggregating tool returns no record, the body of the
  tool returns the literal text \<^verbatim>\<open>No investor data found.\<close> without raising, so no division is
  reached, and that text is the result of the tool.
\<close>

theorem empty_data_message:
  "truthy_arg (supabase_url e) \<Longrightarrow> truthy_arg (supabase_key e) \<Longrightarrow> lists_or_aggregates c \<Longrightarrow>
   first_query c = Some q \<Longrightarrow> execute e q = Inr [] \<Longrightarrow>
   call_tool e c qs = (''No investor data found.'', qs @ [q])
   \<and> tool_body e c qs = (Inr ''No investor data found.'', qs @ [q])"
  using body_empty [of e c q qs] by (simp add: call_tool_handle handle_def no_data_def)

theorem empty_data_message_witness:
  "fst (call_tool (sample_env (\<lambda>q. Inr [])) GetInvestorStatistics []) = ''No investor data found.''
   \<and> fst (call_tool (sample_env (\<lambda>q. Inr [])) AnalyzeInvestmentStages []) = ''No investor data found.''"
  using empty_data_message [of "sample_env (\<lambda>q. Inr [])" GetInvestorStatistics _ "[]"]
    empty_data_message [of "sample_env (\<lambda>q. Inr [])" AnalyzeInvestmentStages _ "[]"]
  by (simp add: sample_env_def truthy_arg_def)

subsection \<open>Record listings\<close>

text \<open>When none of the first ten records has a null thesis, the listing is the header with
  the exact count, one block for each of the first ten records in order, and the closing
  line with the remaining count exactly when there are more than ten records.\<close>

lemma investor_block_ok:
  "dict_get_default r ''Investment thesis'' NA \<noteq> PNone \<Longrightarrow> \<exists>b. investor_block i r = Inr b"
  by (cases "dict_get_default r ''Investment thesis'' NA") (simp_all add: investor_block_def)

lemma investor_blocks_layout:
  "\<forall>r \<in> set rs. dict_get_default r ''Investment thesis'' NA \<noteq> PNone \<Longrightarrow>
   \<exists>bs. length bs = length rs \<and> investor_blocks i rs = Inr (concat bs) \<and>
        (\<forall>j < length rs. investor_block (i + j) (rs ! j) = Inr (bs ! j))"
proof (induction rs arbitrary: i)
  case Nil
  then show ?case by simp
next
  case (Cons r rs)
  from Cons.prems obtain b where b: "investor_block i r = Inr b"
    using investor_block_ok [of r i] by auto
  from Cons.prems have "\<forall>r \<in> set rs. dict_get_default r ''Investment thesis'' NA \<noteq> PNone"
    by simp
  from Cons.IH [OF this, of "Suc i"] obtain bs where bs:
    "length bs = length rs" "investor_blocks (Suc i) rs = Inr (concat bs)"
    "\<forall>j < length rs. investor_block (Suc i + j) (rs ! j) = Inr (bs ! j)"
    by blast
  have "\<forall>j < length (r # rs). investor_block (i + j) ((r # rs) ! j) = Inr ((b # bs) ! j)"
  proof (intro allI impI)
    fix j assume "j < length (r # rs)"
    then show "investor_block (i + j) ((r # rs) ! j) = Inr ((b # bs) ! j)"
      using b bs(3) by (cases j) auto
  qed
  moreover have "investor_blocks i (r # rs) = Inr (concat (b # bs))"
    using b bs(2) by simp
  moreover have "length (b # bs) = length (r # rs)" using bs(1) by simp
  ultimately show ?case by blast
qed

lemma listing_layout:
  assumes "\<forall>r \<in> set (take 10 data). dict_get_default r ''Investment thesis'' NA \<noteq> PNone"
  shows "\<exists>bs. length bs = min 10 (length data) \<and>
           format_listing header data =
             Inr (header @ concat bs @
                  (if length data > 10
                   then ''... and '' @ str_nat (length data - 10) @ '' more records.'' else [])) \<and>
           (\<forall>j < length bs. investor_block (Suc j) (data ! j) = Inr (bs ! j))"
proof -
  from investor_blocks_layout [OF assms, of 1] obtain bs where bs:
    "length bs = length (take 10 data)" "investor_blocks 1 (take 10 data) = Inr (concat bs)"
    "\<forall>j < length (take 10 data). investor_block (1 + j) (take 10 data ! j) = Inr (bs ! j)"
    by blast
  have "length bs = min 10 (length data)" using bs(1) by simp
  moreover have "format_listing header data =
             Inr (header @ concat bs @
                  (if length data > 10
                   then ''... and '' @ str_nat (length data - 10) @ '' more records.'' else []))"
    using bs(2) by (simp add: format_listing_def more_line_def)
  moreover have "\<forall>j < length bs. investor_block (Suc j) (data ! j) = Inr (bs ! j)"
    using bs(1) bs(3) by simp
  ultimately show ?thesis by blast
qed

lemma get_investor_data_layout:
  assumes "truthy_arg (supabase_url e)" "truthy_arg (supabase_key e)"
    and "execute e (build_query ''dec-2024'' (Some all_columns) None limit) = Inr data"
    and "data \<noteq> []"
    and "\<forall>r \<in> set (take 10 data). dict_get_default r ''Investment thesis'' NA \<noteq> PNone"
  shows "\<exists>bs. length bs = min 10 (length data) \<and>
           fst (get_investor_data e limit qs) =
             ''Found '' @ str_nat (length data) @ '' investor records:'' @ nl @ nl @ concat bs @
             (if length data > 10
              then ''... and '' @ str_nat (length data - 10) @ '' more records.'' else []) \<and>
           (\<forall>j < length bs. investor_block (Suc j) (data ! j) = Inr (bs ! j))"
proof -
  from listing_layout [OF assms(5), of "''Found '' @ str_nat (length data) @ '' investor records:'' @ nl @ nl"]
  obtain bs where bs: "length bs = min 10 (length data)"
    "format_listing (''Found '' @ str_nat (length data) @ '' investor records:'' @ nl @ nl) data =
       Inr ((''Found '' @ str_nat (length data) @ '' investor records:'' @ nl @ nl) @ concat bs @
            (if length data > 10
             then ''... and '' @ str_nat (length data - 10) @ '' more records.'' else []))"
    "\<forall>j < length bs. investor_block (Suc j) (data ! j) = Inr (bs ! j)"
    by blast
  have "fst (get_investor_data e limit qs) =
             ''Found '' @ str_nat (length data) @ '' investor records:'' @ nl @ nl @ concat bs @
             (if length data > 10
              then ''... and '' @ str_nat (length data - 10) @ '' more records.'' else [])"
    using assms(1-4) bs(2)
    by (simp add: get_investor_data_def get_investor_data_body_def fetch_rows handle_def)
  then show ?thesis using bs(1) bs(3) by blast
qed

text \<open>
  Claim C5 at a record whose thesis is null: \<^verbatim>\<open>len(thesis)\<close> raises, and the listing of one record
  is the error text of the handler, with no header and no record block.
\<close>

theorem listing_null_thesis:
  "fst (get_investor_data
          (sample_env (\<lambda>q. Inr [map_of [(''Investor name'', PStr ''Acme''), (''Investment thesis'', PNone)]]))
          None [])
   = ''An error occurred while fetching investor data: object of type 'NoneType' has no len()''"
  by (simp add: get_investor_data_def get_investor_data_body_def fetch_data_from_supabase_def
      sample_env_def truthy_arg_def handle_def format_listing_def investor_block_def
      dict_get_default_def NA_def)

end
